theory Spec2Isabelle
  imports Complex_Main "HOL-Library.Word" "HOL-Library.Signed_Division" "HOL-Library.Log_Nat"
begin

section \<open>Errors (internal/errors and the Go error chain)\<close>

text \<open>
  The five package-level sentinels of \<^verbatim>\<open>internal/errors\<close>. Each is one
  \<^verbatim>\<open>errors.New\<close> value, compared by identity.
\<close>

datatype sentinel =
    ErrCorruptedImage
  | ErrUnsupportedFormat
  | ErrPermissionDenied
  | ErrSourceNotFound
  | ErrFatal

datatype errno = ENOENT | EACCES | EEXIST | EISDIR | ENOTDIR | ENOTEMPTY

text \<open>
  A Go error value, as far as the repository builds and inspects one:
  a sentinel; a fresh \<^verbatim>\<open>errors.New\<close> or \<^verbatim>\<open>fmt.Errorf\<close> value without
  \<^verbatim>\<open>%w\<close> (also every error of the codec library, which cannot name the
  repository's sentinels); a \<^verbatim>\<open>syscall.Errno\<close>, and the operating
  system's \<^verbatim>\<open>*fs.PathError\<close> and \<^verbatim>\<open>*os.LinkError\<close> around an error; \<^verbatim>\<open>fmt.Errorf\<close> with one
  \<^verbatim>\<open>%w\<close> (the text before the verb, the wrapped error, the text after it); and
  \<^verbatim>\<open>fmt.Errorf("%w: %w", a, b)\<close>.
\<close>

datatype go_error =
    Sentinel sentinel
  | ErrorString string
  | Errno errno
  | PathError string string go_error
  | LinkError string string string go_error
  | WrapError string go_error string
  | WrapErrors go_error go_error

fun sentinel_text :: "sentinel \<Rightarrow> string" where
  "sentinel_text ErrCorruptedImage = ''corrupted image''"
| "sentinel_text ErrUnsupportedFormat = ''unsupported format''"
| "sentinel_text ErrPermissionDenied = ''permission denied''"
| "sentinel_text ErrSourceNotFound = ''source not found''"
| "sentinel_text ErrFatal = ''fatal error''"

fun errno_text :: "errno \<Rightarrow> string" where
  "errno_text ENOENT = ''no such file or directory''"
| "errno_text EACCES = ''permission denied''"
| "errno_text EEXIST = ''file exists''"
| "errno_text EISDIR = ''is a directory''"
| "errno_text ENOTDIR = ''not a directory''"
| "errno_text ENOTEMPTY = ''directory not empty''"

text \<open>The method \<^verbatim>\<open>Error()\<close>.\<close>

fun error_text :: "go_error \<Rightarrow> string" where
  "error_text (Sentinel s) = sentinel_text s"
| "error_text (ErrorString m) = m"
| "error_text (Errno e) = errno_text e"
| "error_text (PathError opn p e) = opn @ '' '' @ p @ '': '' @ error_text e"
| "error_text (LinkError opn old new e) = opn @ '' '' @ old @ '' '' @ new @ '': '' @ error_text e"
| "error_text (WrapError m e m') = m @ error_text e @ m'"
| "error_text (WrapErrors a b) = error_text a @ '': '' @ error_text b"

text \<open>
  \<^verbatim>\<open>errors.Is(err, target)\<close> for a target that is one of the sentinels: the chain
  is walked through \<^verbatim>\<open>Unwrap\<close>, and a link matches when it is the target itself.
  A \<^verbatim>\<open>*fs.PathError\<close> or \<^verbatim>\<open>*os.LinkError\<close> unwraps to the error it holds, as a
  rule a \<^verbatim>\<open>syscall.Errno\<close>, whose \<^verbatim>\<open>Is\<close> method answers only for the standard library's own \<^verbatim>\<open>fs.ErrPermission\<close>,
  \<^verbatim>\<open>fs.ErrExist\<close>, \<^verbatim>\<open>fs.ErrNotExist\<close> and \<^verbatim>\<open>errors.ErrUnsupported\<close>: never for a
  sentinel of this repository.
\<close>

fun errors_Is :: "go_error \<Rightarrow> sentinel \<Rightarrow> bool" where
  "errors_Is (Sentinel s) t = (s = t)"
| "errors_Is (ErrorString m) t = False"
| "errors_Is (Errno e) t = False"
| "errors_Is (PathError opn p e) t = errors_Is e t"
| "errors_Is (LinkError opn old new e) t = errors_Is e t"
| "errors_Is (WrapError m e m') t = errors_Is e t"
| "errors_Is (WrapErrors a b) t = (errors_Is a t \<or> errors_Is b t)"

section \<open>Go standard library: strings and paths (Unix)\<close>

text \<open>Strings are byte sequences, as Go's are.\<close>

fun strings_Contains :: "string \<Rightarrow> string \<Rightarrow> bool" where
  "strings_Contains [] sub = (sub = [])"
| "strings_Contains (c # cs) sub =
     (take (length sub) (c # cs) = sub \<or> strings_Contains cs sub)"

definition strings_HasSuffix :: "string \<Rightarrow> string \<Rightarrow> bool" where
  "strings_HasSuffix s suffix =
     (length suffix \<le> length s \<and> drop (length s - length suffix) s = suffix)"

definition strings_TrimSuffix :: "string \<Rightarrow> string \<Rightarrow> string" where
  "strings_TrimSuffix s suffix =
     (if strings_HasSuffix s suffix then take (length s - length suffix) s else s)"

text \<open>The elements of a path: \<^verbatim>\<open>strings.Split(path, "/")\<close>.\<close>

fun path_elements :: "string \<Rightarrow> string list" where
  "path_elements [] = [[]]"
| "path_elements (c # cs) =
     (if c = CHR ''/'' then [] # path_elements cs
      else (case path_elements cs of
              [] \<Rightarrow> [[c]]
            | e # es \<Rightarrow> (c # e) # es))"

fun join_elements :: "string list \<Rightarrow> string" where
  "join_elements [] = []"
| "join_elements [e] = e"
| "join_elements (e # es) = e @ CHR ''/'' # join_elements es"

text \<open>
  \<^verbatim>\<open>filepath.Clean\<close>, element by element. The library's loop reads the path once and
  keeps an output buffer with a mark \<^verbatim>\<open>dotdot\<close> below which it cannot backtrack
  (the leading slash, or a leading run of \<^verbatim>\<open>..\<close> elements): an empty element and
  \<^verbatim>\<open>.\<close> are dropped; \<^verbatim>\<open>..\<close> removes the last element written above the mark, is
  appended when there is none and the path is not rooted, and is dropped at the root;
  any other element is appended. The empty result is \<^verbatim>\<open>.\<close>.
\<close>

fun clean_elements :: "bool \<Rightarrow> string list \<Rightarrow> string list \<Rightarrow> string list" where
  "clean_elements rooted out [] = out"
| "clean_elements rooted out (e # es) =
     (if e = [] \<or> e = ''.'' then clean_elements rooted out es
      else if e = ''..'' then
        (if out \<noteq> [] \<and> last out \<noteq> ''..'' then clean_elements rooted (butlast out) es
         else if \<not> rooted then clean_elements rooted (out @ [''..'']) es
         else clean_elements rooted out es)
      else clean_elements rooted (out @ [e]) es)"

definition filepath_Clean :: "string \<Rightarrow> string" where
  "filepath_Clean path =
     (let rooted = (path \<noteq> [] \<and> hd path = CHR ''/'');
          out = clean_elements rooted [] (path_elements path)
      in if rooted then CHR ''/'' # join_elements out
         else if out = [] then ''.''
         else join_elements out)"

text \<open>
  \<^verbatim>\<open>filepath.Ext\<close>: the library scans from the last byte towards the first, stops
  at a separator, and returns the suffix that starts at the first dot it meets.
  \<open>ext_scan\<close> reads the reversed path; its second argument is what it has passed.
\<close>

fun ext_scan :: "string \<Rightarrow> string \<Rightarrow> string" where
  "ext_scan [] passed = []"
| "ext_scan (c # cs) passed =
     (if c = CHR ''/'' then []
      else if c = CHR ''.'' then c # passed
      else ext_scan cs (c # passed))"

definition filepath_Ext :: "string \<Rightarrow> string" where
  "filepath_Ext path = ext_scan (rev path) []"

text \<open>\<^verbatim>\<open>filepath.Dir\<close>: \<^verbatim>\<open>Clean\<close> of everything up to and including the last separator.\<close>

definition filepath_Dir :: "string \<Rightarrow> string" where
  "filepath_Dir path = filepath_Clean (rev (dropWhile (\<lambda>c. c \<noteq> CHR ''/'') (rev path)))"

text \<open>
  \<^verbatim>\<open>filepath.Base\<close>: the last element, trailing separators removed first;
  \<^verbatim>\<open>.\<close> for the empty path and \<^verbatim>\<open>/\<close> for a path of separators only.
\<close>

definition filepath_Base :: "string \<Rightarrow> string" where
  "filepath_Base path =
     (if path = [] then ''.''
      else let stripped = rev (dropWhile (\<lambda>c. c = CHR ''/'') (rev path));
               b = rev (takeWhile (\<lambda>c. c \<noteq> CHR ''/'') (rev stripped))
           in if b = [] then ''/'' else b)"

text \<open>\<^verbatim>\<open>filepath.Join\<close>: leading empty elements are skipped, the rest joined and cleaned.\<close>

definition filepath_Join :: "string list \<Rightarrow> string" where
  "filepath_Join elem =
     (case dropWhile (\<lambda>e. e = []) elem of
        [] \<Rightarrow> []
      | e # es \<Rightarrow> filepath_Clean (join_elements (e # es)))"

text \<open>
  \<^verbatim>\<open>strings.ToLower\<close>. On a string of ASCII bytes (top bit clear) the library lowers \<^verbatim>\<open>A\<close> to
  \<^verbatim>\<open>Z\<close> byte by byte. On any other string it maps \<^verbatim>\<open>unicode.ToLower\<close> over the
  decoded runes; that table is not part of the repository and is the parameter
  \<open>unicode_lower\<close>.
\<close>

definition ascii_lower :: "char \<Rightarrow> char" where
  "ascii_lower c =
     (case map_of (zip ''ABCDEFGHIJKLMNOPQRSTUVWXYZ'' ''abcdefghijklmnopqrstuvwxyz'') c of
        Some l \<Rightarrow> l
      | None \<Rightarrow> c)"

definition strings_ToLower :: "(string \<Rightarrow> string) \<Rightarrow> string \<Rightarrow> string" where
  "strings_ToLower unicode_lower s =
     (if list_all (\<lambda>c. \<not> digit7 c) s then map ascii_lower s
      else unicode_lower s)"

text \<open>\<^verbatim>\<open>strconv.FormatUint(n, 10)\<close>.\<close>

fun strconv_FormatUint :: "nat \<Rightarrow> string" where
  "strconv_FormatUint n =
     (if n < 10 then [''0123456789'' ! n]
      else strconv_FormatUint (n div 10) @ [''0123456789'' ! (n mod 10)])"

declare strconv_FormatUint.simps [simp del]

section \<open>Machine numbers\<close>

type_synonym uint16 = "16 word"
type_synonym uint32 = "32 word"
type_synonym uint64 = "64 word"
type_synonym int64 = "64 word"

text \<open>
  Go's \<^verbatim>\<open>/\<close> on \<^verbatim>\<open>int64\<close>: the operands read as two's complement, the quotient
  truncated towards zero.
\<close>

definition int64_div :: "int64 \<Rightarrow> int64 \<Rightarrow> int64" where
  "int64_div a b = word_of_int (sint a sdiv sint b)"

text \<open>
  \<^verbatim>\<open>float64\<close>. The values the repository computes are quotients of non-negative
  integers, so a \<^verbatim>\<open>float64\<close> is modelled by the rational it denotes, with IEEE 754
  rounding to nearest, ties to even, at 53 significant bits written out. (No value
  here leaves the normal range: the operands are below \<open>2 ^ 64\<close>.)

  \<open>float64_of_nat\<close> is the conversion \<^verbatim>\<open>float64(n)\<close> of an unsigned integer: exact up
  to 53 bits, otherwise the low \<open>s\<close> bits are rounded away. The result is an integer.
\<close>

definition float64_of_nat :: "nat \<Rightarrow> nat" where
  "float64_of_nat n =
     (let l = floorlog 2 n
      in if l \<le> 53 then n
         else let s = l - 53; q = n div 2 ^ s; r = n mod 2 ^ s; h = 2 ^ (s - 1)
              in (if r < h \<or> (r = h \<and> even q) then q else q + 1) * 2 ^ s)"

definition round_half_even :: "rat \<Rightarrow> int" where
  "round_half_even x =
     (let f = \<lfloor>x\<rfloor>; r = x - of_int f
      in if r < 1 / 2 then f
         else if 1 / 2 < r then f + 1
         else if even f then f else f + 1)"

text \<open>
  \<open>float64_div a b\<close> is \<^verbatim>\<open>a / b\<close> for two integer-valued \<^verbatim>\<open>float64\<close> operands with
  \<open>b\<close> positive (the repository divides only behind such a guard): with \<open>e\<close> the
  binary exponent of the exact quotient, the quotient is rounded to a multiple of
  \<open>2 ^ (e - 52)\<close>.
\<close>

definition float64_div :: "nat \<Rightarrow> nat \<Rightarrow> rat" where
  "float64_div a b =
     (if a = 0 then 0
      else let x = of_nat a / of_nat b;
               k = int (floorlog 2 a) - int (floorlog 2 b);
               e = (if 2 powi k \<le> x then k else k - 1);
               u = 2 powi (e - 52)
           in of_int (round_half_even (x / u)) * u)"

section \<open>The codec library (govips) as an interface\<close>

datatype vips_ImageType =
    ImageTypeUnknown | ImageTypeGIF | ImageTypeJPEG | ImageTypePNG
  | ImageTypeTIFF | ImageTypeWEBP | ImageTypeHEIF | ImageTypeAVIF

datatype vips_Kernel = KernelNearest | KernelLinear | KernelCubic | KernelLanczos2 | KernelLanczos3

text \<open>The fields of \<^verbatim>\<open>vips.ExportParams\<close> that the repository sets.\<close>

record ExportParams =
  Format :: vips_ImageType
  ExportQuality :: int
  Compression :: int
  StripMetadata :: bool

text \<open>A decoded image: the two dimensions the repository reads, and the pixels.\<close>

record image =
  Width :: nat
  Height :: nat
  Pixels :: string

section \<open>The world outside the program\<close>

text \<open>
  What the program cannot decide is a parameter: the Unicode case table, MD5, the
  clock, the random part of a temporary file's name, whether \<^verbatim>\<open>sync.Pool\<close> hands a
  stored item back, and the codec (its default export parameters, decoding,
  resizing, encoding; an error of the codec is its message).
\<close>

record env =
  unicode_lower :: "string \<Rightarrow> string"
  md5_hex :: "string \<Rightarrow> string"
  clock_at :: "nat \<Rightarrow> int"
  random_name :: "nat \<Rightarrow> string"
  pool_reuses :: "nat \<Rightarrow> bool"
  vips_NewDefaultExportParams :: ExportParams
  vips_decode :: "string \<Rightarrow> string + image"
  vips_resize :: "image \<Rightarrow> rat \<Rightarrow> vips_Kernel \<Rightarrow> string + image"
  vips_encode :: "image \<Rightarrow> ExportParams \<Rightarrow> string + string"

text \<open>
  The file system maps a path, as the program spells it, to what is there: nothing,
  something that may not be examined, a directory (its reported size and
  modification time) or a regular file (its bytes and modification time). Two
  spellings are two entries, and a file needs no entry for its directory.
  Times are instants on one integer scale.
\<close>

datatype node = Absent | Inaccessible | Directory int64 int | Regular string int

text \<open>Every change of the file system and every call into the codec is logged, in order.\<close>

datatype effect =
    FsMkdir string
  | FsCreate string
  | FsWrite string string
  | FsRename string string
  | FsRemove string
  | CodecLoad string
  | CodecResize rat
  | CodecExport ExportParams

record world =
  files :: "string \<Rightarrow> node"
  effects :: "effect list"
  clock_reads :: nat
  random_reads :: nat

record file_info =
  Size :: int64
  ModTime :: int
  IsDir :: bool

definition time_Now :: "env \<Rightarrow> world \<Rightarrow> int \<times> world" where
  "time_Now env w = (clock_at env (clock_reads w), w\<lparr>clock_reads := Suc (clock_reads w)\<rparr>)"

text \<open>\<^verbatim>\<open>Time.Sub\<close>: a \<^verbatim>\<open>Duration\<close> is an \<^verbatim>\<open>int64\<close>, and the difference saturates.\<close>

definition time_Sub :: "int \<Rightarrow> int \<Rightarrow> int64" where
  "time_Sub t u = word_of_int (max (- (2 ^ 63)) (min (2 ^ 63 - 1) (t - u)))"

definition time_Since :: "env \<Rightarrow> world \<Rightarrow> int \<Rightarrow> int64 \<times> world" where
  "time_Since env w start = (case time_Now env w of (now, w') \<Rightarrow> (time_Sub now start, w'))"

definition os_Stat :: "world \<Rightarrow> string \<Rightarrow> go_error + file_info" where
  "os_Stat w name =
     (if name = [] then Inl (PathError ''stat'' name (Errno ENOENT))
      else case files w name of
             Absent \<Rightarrow> Inl (PathError ''stat'' name (Errno ENOENT))
           | Inaccessible \<Rightarrow> Inl (PathError ''stat'' name (Errno EACCES))
           | Directory sz t \<Rightarrow> Inr \<lparr>Size = sz, ModTime = t, IsDir = True\<rparr>
           | Regular d t \<Rightarrow> Inr \<lparr>Size = of_nat (length d), ModTime = t, IsDir = False\<rparr>)"

text \<open>\<^verbatim>\<open>os.IsNotExist\<close> on an error of \<open>os_Stat\<close>.\<close>

fun os_IsNotExist :: "go_error \<Rightarrow> bool" where
  "os_IsNotExist (PathError opn p e) = (e = Errno ENOENT)"
| "os_IsNotExist (LinkError opn old new e) = (e = Errno ENOENT)"
| "os_IsNotExist (Errno e) = (e = ENOENT)"
| "os_IsNotExist e = False"

text \<open>\<^verbatim>\<open>os.Open\<close>: the handle is the node that was opened.\<close>

definition os_Open :: "world \<Rightarrow> string \<Rightarrow> go_error + node" where
  "os_Open w name =
     (if name = [] then Inl (PathError ''open'' name (Errno ENOENT))
      else case files w name of
             Absent \<Rightarrow> Inl (PathError ''open'' name (Errno ENOENT))
           | Inaccessible \<Rightarrow> Inl (PathError ''open'' name (Errno EACCES))
           | n \<Rightarrow> Inr n)"

definition os_MkdirAll :: "env \<Rightarrow> world \<Rightarrow> string \<Rightarrow> go_error option \<times> world" where
  "os_MkdirAll env w name =
     (case files w name of
        Directory sz t \<Rightarrow> (None, w)
      | Regular d t \<Rightarrow> (Some (PathError ''mkdir'' name (Errno ENOTDIR)), w)
      | Inaccessible \<Rightarrow> (Some (PathError ''mkdir'' name (Errno EACCES)), w)
      | Absent \<Rightarrow>
          (case time_Now env w of
             (now, w') \<Rightarrow>
               (None, w'\<lparr>files := (files w')(name := Directory 4096 now),
                         effects := effects w' @ [FsMkdir name]\<rparr>)))"

text \<open>
  \<^verbatim>\<open>os.WriteFile\<close>: the file is created or truncated and the bytes written.
\<close>

definition os_WriteFile :: "env \<Rightarrow> world \<Rightarrow> string \<Rightarrow> string \<Rightarrow> go_error option \<times> world" where
  "os_WriteFile env w name data =
     (if name = [] then (Some (PathError ''open'' name (Errno ENOENT)), w)
      else case files w name of
             Inaccessible \<Rightarrow> (Some (PathError ''open'' name (Errno EACCES)), w)
           | Directory sz t \<Rightarrow> (Some (PathError ''open'' name (Errno EISDIR)), w)
           | _ \<Rightarrow>
               (case time_Now env w of
                  (now, w') \<Rightarrow>
                    (None, w'\<lparr>files := (files w')(name := Regular data now),
                              effects := effects w' @ [FsWrite name data]\<rparr>)))"

definition os_Remove :: "world \<Rightarrow> string \<Rightarrow> go_error option \<times> world" where
  "os_Remove w name =
     (if name = [] then (Some (PathError ''remove'' name (Errno ENOENT)), w)
      else case files w name of
             Absent \<Rightarrow> (Some (PathError ''remove'' name (Errno ENOENT)), w)
           | Inaccessible \<Rightarrow> (Some (PathError ''remove'' name (Errno EACCES)), w)
           | Directory sz t \<Rightarrow> (Some (PathError ''remove'' name (Errno ENOTEMPTY)), w)
           | Regular d t \<Rightarrow>
               (None, w\<lparr>files := (files w)(name := Absent),
                        effects := effects w @ [FsRemove name]\<rparr>))"

text \<open>\<^verbatim>\<open>os.Rename\<close>: a file replaces a file, never a directory.\<close>

definition os_Rename :: "world \<Rightarrow> string \<Rightarrow> string \<Rightarrow> go_error option \<times> world" where
  "os_Rename w old new =
     (case files w old of
        Absent \<Rightarrow> (Some (LinkError ''rename'' old new (Errno ENOENT)), w)
      | Inaccessible \<Rightarrow> (Some (LinkError ''rename'' old new (Errno EACCES)), w)
      | Directory sz t \<Rightarrow>
          (case files w new of
             Absent \<Rightarrow>
               (None, w\<lparr>files := (files w)(old := Absent, new := Directory sz t),
                        effects := effects w @ [FsRename old new]\<rparr>)
           | Inaccessible \<Rightarrow> (Some (LinkError ''rename'' old new (Errno EACCES)), w)
           | Directory sz' t' \<Rightarrow> (Some (LinkError ''rename'' old new (Errno ENOTEMPTY)), w)
           | Regular d' t' \<Rightarrow> (Some (LinkError ''rename'' old new (Errno ENOTDIR)), w))
      | Regular d t \<Rightarrow>
          (case files w new of
             Inaccessible \<Rightarrow> (Some (LinkError ''rename'' old new (Errno EACCES)), w)
           | Directory sz' t' \<Rightarrow> (Some (LinkError ''rename'' old new (Errno EISDIR)), w)
           | _ \<Rightarrow>
               (None, w\<lparr>files := (files w)(old := Absent, new := Regular d t),
                        effects := effects w @ [FsRename old new]\<rparr>)))"

text \<open>
  \<^verbatim>\<open>os.CreateTemp(dir, pattern)\<close>. The pattern may not hold a separator; a last
  \<^verbatim>\<open>*\<close> in it is where the random part goes, otherwise the random part is
  appended. The library tries up to 10000 names, taking a new random part whenever
  the name exists, and creates the file exclusively.
\<close>

definition prefixAndSuffix :: "string \<Rightarrow> (string \<times> string) option" where
  "prefixAndSuffix pattern =
     (if CHR ''/'' \<in> set pattern then None
      else if CHR ''*'' \<in> set pattern
      then Some (rev (tl (dropWhile (\<lambda>c. c \<noteq> CHR ''*'') (rev pattern))),
                 rev (takeWhile (\<lambda>c. c \<noteq> CHR ''*'') (rev pattern)))
      else Some (pattern, []))"

definition joinPath :: "string \<Rightarrow> string \<Rightarrow> string" where
  "joinPath dir name =
     (if dir \<noteq> [] \<and> last dir = CHR ''/'' then dir @ name else dir @ ''/'' @ name)"

fun createTemp_try :: "env \<Rightarrow> nat \<Rightarrow> world \<Rightarrow> string \<Rightarrow> string \<Rightarrow> string \<Rightarrow> (go_error + string) \<times> world" where
  "createTemp_try env 0 w dir prefix suffix =
     (Inl (PathError ''createtemp'' (prefix @ ''*'' @ suffix) (ErrorString ''file already exists'')), w)"
| "createTemp_try env (Suc tries) w dir prefix suffix =
     (let name = prefix @ random_name env (random_reads w) @ suffix;
          w1 = w\<lparr>random_reads := Suc (random_reads w)\<rparr>
      in case files w1 dir of
           Absent \<Rightarrow> (Inl (PathError ''open'' name (Errno ENOENT)), w1)
         | Inaccessible \<Rightarrow> (Inl (PathError ''open'' name (Errno EACCES)), w1)
         | Regular d t \<Rightarrow> (Inl (PathError ''open'' name (Errno ENOTDIR)), w1)
         | Directory sz t \<Rightarrow>
             (case files w1 name of
                Absent \<Rightarrow>
                  (case time_Now env w1 of
                     (now, w2) \<Rightarrow>
                       (Inr name, w2\<lparr>files := (files w2)(name := Regular [] now),
                                        effects := effects w2 @ [FsCreate name]\<rparr>))
              | Inaccessible \<Rightarrow> (Inl (PathError ''open'' name (Errno EACCES)), w1)
              | _ \<Rightarrow> createTemp_try env tries w1 dir prefix suffix))"

definition os_CreateTemp :: "env \<Rightarrow> world \<Rightarrow> string \<Rightarrow> string \<Rightarrow> (go_error + string) \<times> world" where
  "os_CreateTemp env w dir pattern =
     (case prefixAndSuffix pattern of
        None \<Rightarrow>
          (Inl (PathError ''createtemp'' pattern (ErrorString ''pattern contains path separator'')), w)
      | Some (prefix, suffix) \<Rightarrow> createTemp_try env 10000 w dir (joinPath dir prefix) suffix)"

text \<open>
  \<^verbatim>\<open>io.CopyBuffer(tmpFile, srcFile, buf)\<close>: everything read from the source handle
  is written to the named file; reading a directory fails.
\<close>

definition io_CopyBuffer :: "env \<Rightarrow> world \<Rightarrow> string \<Rightarrow> string \<Rightarrow> node \<Rightarrow> go_error option \<times> world" where
  "io_CopyBuffer env w dstName srcName srcFile =
     (case srcFile of
        Regular d t \<Rightarrow>
          (case time_Now env w of
             (now, w') \<Rightarrow>
               (None, w'\<lparr>files := (files w')(dstName := Regular d now),
                         effects := effects w' @ [FsWrite dstName d]\<rparr>))
      | _ \<Rightarrow> (Some (PathError ''read'' srcName (Errno EISDIR)), w))"

text \<open>The three calls into the codec; each is logged.\<close>

definition vips_NewImageFromFile :: "env \<Rightarrow> world \<Rightarrow> string \<Rightarrow> (string + image) \<times> world" where
  "vips_NewImageFromFile env w name =
     (let w' = w\<lparr>effects := effects w @ [CodecLoad name]\<rparr>
      in case files w name of
           Regular d t \<Rightarrow> (vips_decode env d, w')
         | _ \<Rightarrow> (Inl ''unable to open file'', w'))"

definition vips_Resize :: "env \<Rightarrow> world \<Rightarrow> image \<Rightarrow> rat \<Rightarrow> vips_Kernel \<Rightarrow> (string + image) \<times> world" where
  "vips_Resize env w img scale kern =
     (vips_resize env img scale kern, w\<lparr>effects := effects w @ [CodecResize scale]\<rparr>)"

definition vips_Export :: "env \<Rightarrow> world \<Rightarrow> image \<Rightarrow> ExportParams \<Rightarrow> (string + string) \<times> world" where
  "vips_Export env w img params =
     (vips_encode env img params, w\<lparr>effects := effects w @ [CodecExport params]\<rparr>)"

section \<open>Validator\<close>

text \<open>\<^verbatim>\<open>hasReadPermission\<close>: the path can be opened.\<close>

definition hasReadPermission :: "world \<Rightarrow> string \<Rightarrow> bool" where
  "hasReadPermission w path = (case os_Open w path of Inl err \<Rightarrow> False | Inr file \<Rightarrow> True)"

fun isValidFormat :: "string \<Rightarrow> string list \<Rightarrow> bool" where
  "isValidFormat format [] = False"
| "isValidFormat format (supportedFormat # rest) =
     (if format = supportedFormat then True else isValidFormat format rest)"

text \<open>\<^verbatim>\<open>ValidateInputs\<close> and \<^verbatim>\<open>ValidateFilePath\<close>: \<^verbatim>\<open>None\<close> is Go's \<^verbatim>\<open>nil\<close>.\<close>

definition ValidateInputs :: "world \<Rightarrow> string \<Rightarrow> string \<Rightarrow> string list \<Rightarrow> go_error option" where
  "ValidateInputs w inputDirectory targetFormat supportedFormats =
     (if inputDirectory = []
      then Some (WrapError [] (Sentinel ErrSourceNotFound) '': input directory is required'')
      else if (case os_Stat w inputDirectory of Inl err \<Rightarrow> os_IsNotExist err | Inr fi \<Rightarrow> False)
      then Some (WrapError [] (Sentinel ErrSourceNotFound)
                  ('': input directory '' @ inputDirectory @ '' does not exist''))
      else if \<not> hasReadPermission w inputDirectory
      then Some (WrapError [] (Sentinel ErrPermissionDenied)
                  ('': input directory '' @ inputDirectory @ '' does not have read permission''))
      else if \<not> isValidFormat targetFormat supportedFormats
      then Some (WrapError [] (Sentinel ErrUnsupportedFormat)
                  ('': target format '' @ targetFormat @ '' is not supported''))
      else None)"

definition ValidateFilePath :: "string \<Rightarrow> go_error option" where
  "ValidateFilePath path =
     (let cleanPath = filepath_Clean path
      in if strings_Contains cleanPath ''..''
         then Some (ErrorString (''invalid path (contains path traversal): '' @ path))
         else None)"

section \<open>Converter\<close>

record ConvertOptions =
  Quality :: uint16
  MaxDimension :: uint16
  KeepOriginal :: bool
  DryRun :: bool
  Backup :: bool
  Metadata :: string

record ConversionResult =
  OriginalPath :: string
  NewPath :: string
  OriginalSize :: int64
  NewSize :: int64
  Duration :: int64
  Error :: "go_error option"

record cacheEntry =
  outputPath :: string
  outputSize :: int64
  lastModified :: int
  configHash :: string

text \<open>
  \<^verbatim>\<open>bufferPool\<close> wraps a \<^verbatim>\<open>sync.Pool\<close> whose \<^verbatim>\<open>New\<close> makes a byte slice.
  \<^verbatim>\<open>put\<close> stores \<^verbatim>\<open>&buf\<close>, a pointer to a slice, and \<^verbatim>\<open>get\<close> asserts that what
  the pool hands out is a slice: the assertion panics on an item that \<^verbatim>\<open>put\<close>
  stored. The pool's state is the number of stored items and of calls of \<^verbatim>\<open>Get\<close>;
  the buffer's bytes are scratch space and carry nothing.
\<close>

datatype go_panic = InterfaceConversion | NilMapAssignment

record bufferPool =
  stored :: nat
  gets :: nat

definition newBufferPool :: bufferPool where
  "newBufferPool = \<lparr>stored = 0, gets = 0\<rparr>"

definition bufferPool_get :: "env \<Rightarrow> bufferPool \<Rightarrow> (go_panic + unit) \<times> bufferPool" where
  "bufferPool_get env bp =
     (if 0 < stored bp \<and> pool_reuses env (gets bp)
      then (Inl InterfaceConversion, bp\<lparr>stored := stored bp - 1, gets := Suc (gets bp)\<rparr>)
      else (Inr (), bp\<lparr>gets := Suc (gets bp)\<rparr>))"

definition bufferPool_put :: "bufferPool \<Rightarrow> bufferPool" where
  "bufferPool_put bp = bp\<lparr>stored := Suc (stored bp)\<rparr>"

text \<open>\<^verbatim>\<open>ImageConverter\<close>; the \<^verbatim>\<open>sync.Map\<close> holds only \<^verbatim>\<open>*cacheEntry\<close> values.\<close>

record ImageConverter =
  options :: ConvertOptions
  bufPool :: bufferPool
  cache :: "string \<rightharpoonup> cacheEntry"

definition NewImageConverter :: "ConvertOptions \<Rightarrow> ImageConverter" where
  "NewImageConverter opts = \<lparr>options = opts, bufPool = newBufferPool, cache = Map.empty\<rparr>"

definition getFileExtension :: "env \<Rightarrow> string \<Rightarrow> string" where
  "getFileExtension env path =
     (let ext = filepath_Ext path
      in if 1 < length ext then strings_ToLower (unicode_lower env) (tl ext) else [])"

definition isAlreadyInFormat :: "string \<Rightarrow> string \<Rightarrow> bool" where
  "isAlreadyInFormat currentExt targetFormat =
     (if currentExt = targetFormat then True
      else (currentExt = ''jpg'' \<and> targetFormat = ''jpeg'') \<or>
           (currentExt = ''jpeg'' \<and> targetFormat = ''jpg''))"

definition getConfigHash :: "ImageConverter \<Rightarrow> string" where
  "getConfigHash ic =
     strconv_FormatUint (unat (Quality (options ic))) @ ''_'' @
     strconv_FormatUint (unat (MaxDimension (options ic)))"

definition getCacheKey :: "env \<Rightarrow> ImageConverter \<Rightarrow> string \<Rightarrow> string \<Rightarrow> string" where
  "getCacheKey env ic inputPath format = md5_hex env (inputPath @ format @ getConfigHash ic)"

definition isCacheValid :: "ImageConverter \<Rightarrow> world \<Rightarrow> cacheEntry \<Rightarrow> int \<Rightarrow> string \<Rightarrow> bool" where
  "isCacheValid ic w cached sourceModTime expectedOutputPath =
     (if lastModified cached < sourceModTime then False
      else if (case os_Stat w expectedOutputPath of Inl err \<Rightarrow> True | Inr fi \<Rightarrow> False) then False
      else if configHash cached \<noteq> getConfigHash ic then False
      else True)"

definition getExportParams :: "env \<Rightarrow> ImageConverter \<Rightarrow> string \<Rightarrow> ExportParams" where
  "getExportParams env ic format =
     (let params = vips_NewDefaultExportParams env;
          quality = uint (Quality (options ic));
          params = (if Metadata (options ic) = ''strip'' then params\<lparr>StripMetadata := True\<rparr>
                    else if Metadata (options ic) = ''keep'' then params\<lparr>StripMetadata := False\<rparr>
                    else if Metadata (options ic) = ''strip-location''
                    then params\<lparr>StripMetadata := False\<rparr>
                    else params\<lparr>StripMetadata := False\<rparr>)
      in if format = ''png''
         then params\<lparr>Format := ImageTypePNG, Compression := 6, ExportQuality := quality\<rparr>
         else if format = ''jpg'' \<or> format = ''jpeg''
         then params\<lparr>Format := ImageTypeJPEG, ExportQuality := quality\<rparr>
         else if format = ''webp'' then params\<lparr>Format := ImageTypeWEBP, ExportQuality := quality\<rparr>
         else if format = ''tiff'' then params\<lparr>Format := ImageTypeTIFF, ExportQuality := quality\<rparr>
         else if format = ''gif'' then params\<lparr>Format := ImageTypeGIF, ExportQuality := quality\<rparr>
         else if format = ''avif'' then params\<lparr>Format := ImageTypeAVIF, ExportQuality := quality\<rparr>
         else if format = ''heif'' then params\<lparr>Format := ImageTypeHEIF, ExportQuality := quality\<rparr>
         else params\<lparr>Format := ImageTypeJPEG\<rparr>)"

text \<open>
  The scale that \<^verbatim>\<open>convertImage\<close> computes when a maximum dimension is set
  (the body of \<^verbatim>\<open>if ic.options.MaxDimension > 0\<close> up to the test \<^verbatim>\<open>scale < 1.0\<close>).
\<close>

definition convertImage_scale :: "ImageConverter \<Rightarrow> image \<Rightarrow> rat" where
  "convertImage_scale ic img =
     (let maxDim = float64_of_nat (unat (MaxDimension (options ic)))
      in if Height img < Width img
         then (if maxDim < float64_of_nat (Width img)
               then float64_div maxDim (float64_of_nat (Width img)) else 1)
         else (if maxDim < float64_of_nat (Height img)
               then float64_div maxDim (float64_of_nat (Height img)) else 1))"

definition convertImage :: "env \<Rightarrow> ImageConverter \<Rightarrow> world \<Rightarrow> string \<Rightarrow> string \<Rightarrow> string \<Rightarrow> go_error option \<times> world" where
  "convertImage env ic w inputPath outPath format =
     (case vips_NewImageFromFile env w inputPath of
        (Inl msg, w1) \<Rightarrow> (Some (WrapErrors (Sentinel ErrCorruptedImage) (ErrorString msg)), w1)
      | (Inr img, w1) \<Rightarrow>
          (case (if 0 < MaxDimension (options ic) \<and> convertImage_scale ic img < 1
                 then vips_Resize env w1 img (convertImage_scale ic img) KernelLanczos3
                 else (Inr img, w1)) of
             (Inl msg, w2) \<Rightarrow>
               (Some (WrapError ''failed to resize image: '' (ErrorString msg) []), w2)
           | (Inr img', w2) \<Rightarrow>
               (let params = getExportParams env ic format
                in case vips_Export env w2 img' params of
                     (Inl msg, w3) \<Rightarrow>
                       (Some (WrapError ''failed to export image: '' (ErrorString msg) []), w3)
                   | (Inr imgBytes, w3) \<Rightarrow>
                       (case os_WriteFile env w3 outPath imgBytes of
                          (Some err, w4) \<Rightarrow>
                            (Some (WrapError ''failed to write image to file: '' err []), w4)
                        | (None, w4) \<Rightarrow> (None, w4)))))"

text \<open>
  \<^verbatim>\<open>copyFileOptimized\<close>. The deferred calls run in reverse order on every way out:
  the buffer goes back to the pool, the temporary file is removed when the named
  result \<^verbatim>\<open>err\<close> is set, the source is closed. A panic of \<^verbatim>\<open>get\<close> finds \<^verbatim>\<open>err\<close>
  still \<^verbatim>\<open>nil\<close>, so the temporary file stays. \<^verbatim>\<open>Sync\<close> and \<^verbatim>\<open>Close\<close> of the
  temporary file succeed in this model of the file system.
\<close>

definition copyFileOptimized :: "env \<Rightarrow> ImageConverter \<Rightarrow> world \<Rightarrow> string \<Rightarrow> string \<Rightarrow> (go_panic + go_error option) \<times> ImageConverter \<times> world" where
  "copyFileOptimized env ic w src dst =
     (case os_Open w src of
        Inl err \<Rightarrow> (Inr (Some (WrapError ''failed to open source: '' err [])), ic, w)
      | Inr srcFile \<Rightarrow>
          (case os_CreateTemp env w (filepath_Dir dst) (''.tmp_'' @ filepath_Base dst) of
             (Inl err, w1) \<Rightarrow>
               (Inr (Some (WrapError ''failed to create temp file: '' err [])), ic, w1)
           | (Inr tmpName, w1) \<Rightarrow>
               (case bufferPool_get env (bufPool ic) of
                  (Inl p, bp) \<Rightarrow> (Inl p, ic\<lparr>bufPool := bp\<rparr>, w1)
                | (Inr buf, bp) \<Rightarrow>
                    (let ic' = ic\<lparr>bufPool := bufferPool_put bp\<rparr>
                     in case io_CopyBuffer env w1 tmpName src srcFile of
                          (Some err, w2) \<Rightarrow>
                            (Inr (Some (WrapError ''failed to copy data: '' err [])), ic',
                             snd (os_Remove w2 tmpName))
                        | (None, w2) \<Rightarrow>
                            (case os_Rename w2 tmpName dst of
                               (Some err, w3) \<Rightarrow>
                                 (Inr (Some (WrapError ''failed to rename temp file: '' err [])), ic',
                                  snd (os_Remove (snd (os_Remove w3 tmpName)) tmpName))
                             | (None, w3) \<Rightarrow> (Inr None, ic', w3))))))"

definition createBackup :: "env \<Rightarrow> ImageConverter \<Rightarrow> world \<Rightarrow> string \<Rightarrow> (go_panic + go_error option) \<times> ImageConverter \<times> world" where
  "createBackup env ic w path =
     (let dir = filepath_Dir path;
          backupDir = filepath_Join [dir, ''backup'']
      in case os_MkdirAll env w backupDir of
           (Some err, w1) \<Rightarrow>
             (Inr (Some (WrapError ''failed to create backup directory: '' err [])), ic, w1)
         | (None, w1) \<Rightarrow>
             (let baseName = filepath_Base path;
                  backupPath = filepath_Join [backupDir, baseName @ ''.bak'']
              in copyFileOptimized env ic w1 path backupPath))"

text \<open>
  \<^verbatim>\<open>ConvertWithOutputPath\<close> between taking \<^verbatim>\<open>start\<close> and the deferred function:
  the result as each \<^verbatim>\<open>return\<close> leaves it, or the panic that passes through.
\<close>

definition ConvertWithOutputPath_body :: "env \<Rightarrow> ImageConverter \<Rightarrow> world \<Rightarrow> string \<Rightarrow> string \<Rightarrow> string \<Rightarrow> (go_panic + ConversionResult) \<times> ImageConverter \<times> world" where
  "ConvertWithOutputPath_body env ic w path format0 outPath =
     (let result = \<lparr>OriginalPath = path, NewPath = [], OriginalSize = 0, NewSize = 0,
                    Duration = 0, Error = None\<rparr>
      in case os_Stat w path of
           Inl err \<Rightarrow>
             (Inr (result\<lparr>Error := Some (WrapError ''failed to stat file: '' err [])\<rparr>), ic, w)
         | Inr stat \<Rightarrow>
             (let result = result\<lparr>OriginalSize := Size stat\<rparr>;
                  currentExt = getFileExtension env path;
                  format = strings_ToLower (unicode_lower env) format0
              in if isAlreadyInFormat currentExt format
                 then (Inr (result\<lparr>Error := Some (ErrorString ''file already in target format'')\<rparr>),
                       ic, w)
                 else
                   (let result = result\<lparr>NewPath :=
                          (if outPath \<noteq> [] then outPath
                           else strings_TrimSuffix path (filepath_Ext path) @ ''.'' @ format)\<rparr>;
                        cacheKey = getCacheKey env ic path format;
                        uncached = (\<lambda>ic.
                          case (case os_Stat w (NewPath result) of
                                  Inr newStat \<Rightarrow>
                                    (case time_Now env w of
                                       (now, w1) \<Rightarrow>
                                         (result\<lparr>NewSize := Size newStat\<rparr>,
                                          ic\<lparr>cache := (cache ic)(cacheKey \<mapsto>
                                             \<lparr>outputPath = NewPath result,
                                              outputSize = Size newStat,
                                              lastModified = now,
                                              configHash = getConfigHash ic\<rparr>)\<rparr>,
                                          w1))
                                | Inl err \<Rightarrow> (result, ic, w)) of
                            (result, ic, w1) \<Rightarrow>
                              if DryRun (options ic) then (Inr result, ic, w1)
                              else
                                (case (if Backup (options ic) then createBackup env ic w1 path
                                       else (Inr None, ic, w1)) of
                                   (Inl p, ic, w2) \<Rightarrow> (Inl p, ic, w2)
                                 | (Inr (Some err), ic, w2) \<Rightarrow>
                                     (Inr (result\<lparr>Error :=
                                        Some (WrapError ''backup failed: '' err [])\<rparr>), ic, w2)
                                 | (Inr None, ic, w2) \<Rightarrow>
                                     (case convertImage env ic w2 path (NewPath result) format of
                                        (Some err, w3) \<Rightarrow> (Inr (result\<lparr>Error := Some err\<rparr>), ic, w3)
                                      | (None, w3) \<Rightarrow>
                                          (case (case os_Stat w3 (NewPath result) of
                                                   Inr newStat \<Rightarrow>
                                                     (result\<lparr>NewSize := Size newStat\<rparr>,
                                                      ic\<lparr>cache := (cache ic)(cacheKey \<mapsto>
                                                         \<lparr>outputPath = NewPath result,
                                                          outputSize = Size newStat,
                                                          lastModified = ModTime stat,
                                                          configHash = getConfigHash ic\<rparr>)\<rparr>)
                                                 | Inl err \<Rightarrow> (result, ic)) of
                                             (result, ic) \<Rightarrow>
                                               if \<not> KeepOriginal (options ic)
                                               then (case os_Remove w3 path of
                                                       (Some err, w4) \<Rightarrow>
                                                         (Inr (result\<lparr>Error := Some (WrapError
                                                            ''failed to remove original: '' err [])\<rparr>),
                                                          ic, w4)
                                                     | (None, w4) \<Rightarrow> (Inr result, ic, w4))
                                               else (Inr result, ic, w3)))))
                    in case cache ic cacheKey of
                         Some cachedEntry \<Rightarrow>
                           if isCacheValid ic w cachedEntry (ModTime stat) (NewPath result)
                           then (Inr (result\<lparr>NewSize := outputSize cachedEntry\<rparr>), ic, w)
                           else uncached (ic\<lparr>cache := (cache ic)(cacheKey := None)\<rparr>)
                       | None \<Rightarrow> uncached ic)))"

text \<open>
  The same body cut at its statements, for the proofs (\<open>ConvertWithOutputPath_body_stages\<close>
  below shows that the pieces make up the body): the refresh of the cache from an output
  file found on disk, the entry stored after a conversion, the removal of the original,
  and everything after the cache lookup.
\<close>

definition refresh_from_disk :: "env \<Rightarrow> world \<Rightarrow> string \<Rightarrow> ConversionResult \<Rightarrow> ImageConverter \<Rightarrow> ConversionResult \<times> ImageConverter \<times> world" where
  "refresh_from_disk env w cacheKey result ic =
     (case os_Stat w (NewPath result) of
        Inr newStat \<Rightarrow>
          (case time_Now env w of
             (now, w1) \<Rightarrow>
               (result\<lparr>NewSize := Size newStat\<rparr>,
                ic\<lparr>cache := (cache ic)(cacheKey \<mapsto>
                   \<lparr>outputPath = NewPath result, outputSize = Size newStat,
                    lastModified = now, configHash = getConfigHash ic\<rparr>)\<rparr>,
                w1))
      | Inl err \<Rightarrow> (result, ic, w))"

definition store_converted :: "world \<Rightarrow> string \<Rightarrow> int \<Rightarrow> ConversionResult \<Rightarrow> ImageConverter \<Rightarrow> ConversionResult \<times> ImageConverter" where
  "store_converted w cacheKey sourceModTime result ic =
     (case os_Stat w (NewPath result) of
        Inr newStat \<Rightarrow>
          (result\<lparr>NewSize := Size newStat\<rparr>,
           ic\<lparr>cache := (cache ic)(cacheKey \<mapsto>
              \<lparr>outputPath = NewPath result, outputSize = Size newStat,
               lastModified = sourceModTime, configHash = getConfigHash ic\<rparr>)\<rparr>)
      | Inl err \<Rightarrow> (result, ic))"

definition remove_original :: "world \<Rightarrow> string \<Rightarrow> ConversionResult \<Rightarrow> ImageConverter \<Rightarrow> (go_panic + ConversionResult) \<times> ImageConverter \<times> world" where
  "remove_original w path result ic =
     (if \<not> KeepOriginal (options ic)
      then (case os_Remove w path of
              (Some err, w') \<Rightarrow>
                (Inr (result\<lparr>Error := Some (WrapError ''failed to remove original: '' err [])\<rparr>),
                 ic, w')
            | (None, w') \<Rightarrow> (Inr result, ic, w'))
      else (Inr result, ic, w))"

definition convert_uncached :: "env \<Rightarrow> world \<Rightarrow> string \<Rightarrow> string \<Rightarrow> string \<Rightarrow> int \<Rightarrow> ConversionResult \<Rightarrow> ImageConverter \<Rightarrow> (go_panic + ConversionResult) \<times> ImageConverter \<times> world" where
  "convert_uncached env w path format cacheKey sourceModTime result0 ic0 =
     (case refresh_from_disk env w cacheKey result0 ic0 of
        (result, ic, w1) \<Rightarrow>
          if DryRun (options ic) then (Inr result, ic, w1)
          else
            (case (if Backup (options ic) then createBackup env ic w1 path
                   else (Inr None, ic, w1)) of
               (Inl p, ic, w2) \<Rightarrow> (Inl p, ic, w2)
             | (Inr (Some err), ic, w2) \<Rightarrow>
                 (Inr (result\<lparr>Error := Some (WrapError ''backup failed: '' err [])\<rparr>), ic, w2)
             | (Inr None, ic, w2) \<Rightarrow>
                 (case convertImage env ic w2 path (NewPath result) format of
                    (Some err, w3) \<Rightarrow> (Inr (result\<lparr>Error := Some err\<rparr>), ic, w3)
                  | (None, w3) \<Rightarrow>
                      (case store_converted w3 cacheKey sourceModTime result ic of
                         (result, ic) \<Rightarrow> remove_original w3 path result ic))))"

text \<open>
  \<^verbatim>\<open>ConvertWithOutputPath\<close>: \<^verbatim>\<open>start\<close> is taken, the body runs, and the deferred
  function sets \<^verbatim>\<open>Duration\<close> on the result (the result is lost to a panic, the
  clock is read all the same). \<^verbatim>\<open>Convert\<close> passes an empty output path.
\<close>

definition ConvertWithOutputPath :: "env \<Rightarrow> ImageConverter \<Rightarrow> world \<Rightarrow> string \<Rightarrow> string \<Rightarrow> string \<Rightarrow> (go_panic + ConversionResult) \<times> ImageConverter \<times> world" where
  "ConvertWithOutputPath env ic w path format outPath =
     (case time_Now env w of
        (start, w0) \<Rightarrow>
          (case ConvertWithOutputPath_body env ic w0 path format outPath of
             (r, ic', w1) \<Rightarrow>
               (case time_Since env w1 start of
                  (d, w2) \<Rightarrow>
                    (case r of
                       Inl p \<Rightarrow> (Inl p, ic', w2)
                     | Inr result \<Rightarrow> (Inr (result\<lparr>Duration := d\<rparr>), ic', w2)))))"

definition Convert :: "env \<Rightarrow> ImageConverter \<Rightarrow> world \<Rightarrow> string \<Rightarrow> string \<Rightarrow> (go_panic + ConversionResult) \<times> ImageConverter \<times> world" where
  "Convert env ic w path format = ConvertWithOutputPath env ic w path format []"

section \<open>Statistics\<close>

record FailureAnalysis =
  Corrupted :: uint32
  Permission :: uint32
  Unsupported :: uint32
  Other :: uint32

text \<open>
  \<^verbatim>\<open>SpaceSaved\<close> is an \<^verbatim>\<open>int\<close>, 64 bits wide on the platforms the program is
  built for. \<^verbatim>\<open>DirectoriesProcessed\<close> is a map that is \<^verbatim>\<open>nil\<close> (\<open>None\<close>) in a
  zero \<^verbatim>\<open>ConversionStatistics\<close> and made by \<^verbatim>\<open>NewConversionStatistics\<close>.
\<close>

record ConversionStatistics =
  TotalFiles :: uint32
  ConvertedFiles :: uint32
  SkippedFiles :: uint32
  FailedFiles :: uint32
  TotalSizeBefore :: uint64
  TotalSizeAfter :: uint64
  TotalDuration :: int64
  AverageDuration :: int64
  SpaceSaved :: int64
  CompressionRatio :: rat
  Failures :: FailureAnalysis
  DirectoriesProcessed :: "(string \<rightharpoonup> int64) option"
  BatchMode :: bool
  RecursiveSearch :: bool
  PreserveStructure :: bool

definition NewConversionStatistics :: ConversionStatistics where
  "NewConversionStatistics =
     \<lparr>TotalFiles = 0, ConvertedFiles = 0, SkippedFiles = 0, FailedFiles = 0,
      TotalSizeBefore = 0, TotalSizeAfter = 0, TotalDuration = 0, AverageDuration = 0,
      SpaceSaved = 0, CompressionRatio = 0,
      Failures = \<lparr>Corrupted = 0, Permission = 0, Unsupported = 0, Other = 0\<rparr>,
      DirectoriesProcessed = Some Map.empty,
      BatchMode = False, RecursiveSearch = False, PreserveStructure = False\<rparr>"

text \<open>
  \<^verbatim>\<open>AddResult\<close> changes the statistics in place; the second component is the panic
  of an assignment to an entry of a \<^verbatim>\<open>nil\<close> map, which leaves the counts as they
  were changed before it.
\<close>

definition AddResult :: "ConversionStatistics \<Rightarrow> ConversionResult \<Rightarrow> ConversionStatistics \<times> go_panic option" where
  "AddResult cs0 result =
     (let cs = cs0\<lparr>TotalFiles := TotalFiles cs0 + 1,
                    TotalDuration := TotalDuration cs0 + Duration result\<rparr>
      in case Error result of
           Some err \<Rightarrow>
             (let f = Failures cs
              in (cs\<lparr>FailedFiles := FailedFiles cs + 1,
                     Failures :=
                       (if errors_Is err ErrCorruptedImage then f\<lparr>Corrupted := Corrupted f + 1\<rparr>
                        else if errors_Is err ErrPermissionDenied
                        then f\<lparr>Permission := Permission f + 1\<rparr>
                        else if errors_Is err ErrUnsupportedFormat
                        then f\<lparr>Unsupported := Unsupported f + 1\<rparr>
                        else f\<lparr>Other := Other f + 1\<rparr>)\<rparr>,
                  None))
         | None \<Rightarrow>
             if OriginalPath result = [] \<and> NewSize result = 0
             then (cs\<lparr>SkippedFiles := SkippedFiles cs + 1\<rparr>, None)
             else
               (let cs = cs\<lparr>ConvertedFiles := ConvertedFiles cs + 1,
                              TotalSizeBefore := TotalSizeBefore cs + OriginalSize result,
                              TotalSizeAfter := TotalSizeAfter cs + NewSize result\<rparr>
                in if BatchMode cs
                   then (let dir = filepath_Dir (OriginalPath result)
                         in case DirectoriesProcessed cs of
                              None \<Rightarrow> (cs, Some NilMapAssignment)
                            | Some m \<Rightarrow>
                                (cs\<lparr>DirectoriesProcessed :=
                                      Some (m(dir \<mapsto> (case m dir of None \<Rightarrow> 0 | Some n \<Rightarrow> n) + 1))\<rparr>,
                                 None))
                   else (cs, None)))"

text \<open>
  \<^verbatim>\<open>Calculate\<close>. \<^verbatim>\<open>time.Duration(cs.TotalFiles)\<close> widens the count to 64 bits;
  \<^verbatim>\<open>int(...)\<close> of the \<^verbatim>\<open>uint64\<close> difference keeps its 64 bits.
\<close>

definition Calculate :: "ConversionStatistics \<Rightarrow> ConversionStatistics" where
  "Calculate cs0 =
     (let cs = (if 0 < TotalFiles cs0
                then cs0\<lparr>AverageDuration := int64_div (TotalDuration cs0) (ucast (TotalFiles cs0))\<rparr>
                else cs0)
      in if 0 < TotalSizeBefore cs
         then cs\<lparr>SpaceSaved := TotalSizeBefore cs - TotalSizeAfter cs,
                 CompressionRatio :=
                   float64_div (float64_of_nat (unat (TotalSizeAfter cs)))
                               (float64_of_nat (unat (TotalSizeBefore cs)))\<rparr>
         else cs)"

section \<open>A concrete instance\<close>

text \<open>
  One choice of the parameters and one small file system, on which the closed
  examples below are evaluated. The identity stands in for MD5 and for the Unicode
  table; the codec decodes every file but \<^verbatim>\<open>bad\<close> to a 2000 by 1000 image, scales
  the two dimensions, and encodes by prefixing the pixels.
\<close>

definition example_env :: env where
  "example_env =
     \<lparr>unicode_lower = (\<lambda>s. s),
      md5_hex = (\<lambda>s. s),
      clock_at = (\<lambda>n. 1000 + int n),
      random_name = strconv_FormatUint,
      pool_reuses = (\<lambda>n. True),
      vips_NewDefaultExportParams =
        \<lparr>Format = ImageTypeUnknown, ExportQuality = 80, Compression = 6, StripMetadata = False\<rparr>,
      vips_decode = (\<lambda>d. if d = ''bad'' then Inl ''bad image''
                         else Inr \<lparr>Width = 2000, Height = 1000, Pixels = d\<rparr>),
      vips_resize = (\<lambda>img scale kern.
         Inr (img\<lparr>Width := nat \<lfloor>of_nat (Width img) * scale\<rfloor>,
                   Height := nat \<lfloor>of_nat (Height img) * scale\<rfloor>\<rparr>)),
      vips_encode = (\<lambda>img params. Inr (''enc:'' @ Pixels img))\<rparr>"

definition example_options :: ConvertOptions where
  "example_options =
     \<lparr>Quality = 80, MaxDimension = 500, KeepOriginal = True, DryRun = False, Backup = False,
      Metadata = ''keep''\<rparr>"

definition example_world :: world where
  "example_world =
     \<lparr>files = (\<lambda>name. Absent)
        (''d/a.png'' := Regular ''pixels'' 5,
         ''d/a.jpg'' := Regular ''old'' 3,
         ''d/x.jpg'' := Regular ''jpg'' 4,
         ''locked/a.png'' := Inaccessible),
      effects = [], clock_reads = 0, random_reads = 0\<rparr>"

section \<open>Path validation: what \<open>ValidateFilePath\<close> rejects\<close>

lemma strings_Contains_iff:
  "strings_Contains s sub \<longleftrightarrow> (\<exists>ps ss. s = ps @ sub @ ss)"
proof (induction s)
  case Nil
  then show ?case by auto
next
  case (Cons c cs)
  show ?case
  proof
    assume "strings_Contains (c # cs) sub"
    then consider "take (length sub) (c # cs) = sub" | "strings_Contains cs sub" by auto
    then show "\<exists>ps ss. c # cs = ps @ sub @ ss"
    proof cases
      case 1
      then have "c # cs = [] @ sub @ drop (length sub) (c # cs)"
        by (metis append_Nil append_take_drop_id)
      then show ?thesis by blast
    next
      case 2
      then obtain ps ss where "cs = ps @ sub @ ss" using Cons.IH by blast
      then have "c # cs = (c # ps) @ sub @ ss" by simp
      then show ?thesis by blast
    qed
  next
    assume "\<exists>ps ss. c # cs = ps @ sub @ ss"
    then obtain ps ss where eq: "c # cs = ps @ sub @ ss" by blast
    show "strings_Contains (c # cs) sub"
    proof (cases ps)
      case Nil
      then have "take (length sub) (c # cs) = sub" using eq by (metis append_Nil append_eq_conv_conj)
      then show ?thesis by simp
    next
      case (Cons p ps')
      then have "cs = ps' @ sub @ ss" using eq by simp
      then have "strings_Contains cs sub" using Cons.IH by blast
      then show ?thesis by simp
    qed
  qed
qed

lemma path_elements_nonempty: "path_elements s \<noteq> []"
  by (induction s) (auto split: list.splits)

lemma path_elements_head_prefix: "path_elements s = e # es \<Longrightarrow> \<exists>ss. s = e @ ss"
  by (induction s arbitrary: e es) (auto split: if_splits list.splits)

lemma path_element_infix: "e \<in> set (path_elements s) \<Longrightarrow> \<exists>ps ss. s = ps @ e @ ss"
proof (induction s arbitrary: e)
  case Nil
  then show ?case by simp
next
  case (Cons c cs)
  show ?case
  proof (cases "c = CHR ''/''")
    case True
    with Cons.prems have "e = [] \<or> e \<in> set (path_elements cs)" by auto
    then show ?thesis
    proof
      assume "e = []" then show ?thesis by (metis append_Nil)
    next
      assume "e \<in> set (path_elements cs)"
      then obtain ps ss where "cs = ps @ e @ ss" using Cons.IH by blast
      then have "c # cs = (c # ps) @ e @ ss" by simp
      then show ?thesis by blast
    qed
  next
    case False
    obtain e0 es where pe: "path_elements cs = e0 # es"
      using path_elements_nonempty by (cases "path_elements cs") auto
    with False Cons.prems have "e = c # e0 \<or> e \<in> set es" by auto
    then show ?thesis
    proof
      assume e: "e = c # e0"
      obtain ss where "cs = e0 @ ss" using path_elements_head_prefix[OF pe] by blast
      then have "c # cs = [] @ e @ ss" using e by simp
      then show ?thesis by blast
    next
      assume "e \<in> set es"
      then have "e \<in> set (path_elements cs)" using pe by simp
      then obtain ps ss where "cs = ps @ e @ ss" using Cons.IH by blast
      then have "c # cs = (c # ps) @ e @ ss" by simp
      then show ?thesis by blast
    qed
  qed
qed

lemma path_element_Contains: "e \<in> set (path_elements s) \<Longrightarrow> strings_Contains s e"
  using path_element_infix strings_Contains_iff by blast

lemma Contains_trans:
  assumes "strings_Contains e t" and "strings_Contains s e"
  shows "strings_Contains s t"
proof -
  obtain p1 s1 where e: "e = p1 @ t @ s1"
    using assms(1) unfolding strings_Contains_iff by blast
  obtain p2 s2 where s: "s = p2 @ e @ s2"
    using assms(2) unfolding strings_Contains_iff by blast
  have "s = (p2 @ p1) @ t @ (s1 @ s2)" using e s by simp
  then show ?thesis unfolding strings_Contains_iff by blast
qed

lemma Contains_dotdot_Cons:
  "strings_Contains (c # cs) ''..'' \<longleftrightarrow>
     (c = CHR ''.'' \<and> cs \<noteq> [] \<and> hd cs = CHR ''.'') \<or> strings_Contains cs ''..''"
  by (cases cs) auto

lemma Contains_dotdot_sep:
  "strings_Contains (a @ CHR ''/'' # b) ''..'' \<Longrightarrow>
     strings_Contains a ''..'' \<or> strings_Contains b ''..''"
proof (induction a)
  case Nil
  then show ?case by (simp add: Contains_dotdot_Cons)
next
  case (Cons x a)
  then show ?case
    by (cases a) (auto simp: Contains_dotdot_Cons)
qed

lemma Contains_dotdot_join:
  "strings_Contains (join_elements es) ''..'' \<Longrightarrow> \<exists>e \<in> set es. strings_Contains e ''..''"
proof (induction es rule: join_elements.induct)
  case 1
  then show ?case by simp
next
  case (2 e)
  then show ?case by simp
next
  case (3 e v va)
  then show ?case using Contains_dotdot_sep by fastforce
qed

lemma clean_elements_subset:
  "''..'' \<notin> set es \<Longrightarrow> set (clean_elements r out es) \<subseteq> set out \<union> set es"
proof (induction es arbitrary: out)
  case Nil
  then show ?case by simp
next
  case (Cons e es)
  have nd: "''..'' \<notin> set es" and ne: "e \<noteq> ''..''" using Cons.prems by auto
  have a: "set (clean_elements r out es) \<subseteq> set out \<union> set es"
    using Cons.IH[OF nd] .
  have b: "set (clean_elements r (out @ [e]) es) \<subseteq> set (out @ [e]) \<union> set es"
    using Cons.IH[OF nd] .
  show ?case
  proof (cases "e = [] \<or> e = ''.''")
    case True
    then show ?thesis using a by auto
  next
    case False
    then have "clean_elements r out (e # es) = clean_elements r (out @ [e]) es"
      using ne by simp
    then show ?thesis using b by auto
  qed
qed

lemma Clean_no_dotdot:
  assumes "\<not> strings_Contains path ''..''"
  shows "\<not> strings_Contains (filepath_Clean path) ''..''"
proof -
  let ?es = "path_elements path"
  have el: "\<And>e. e \<in> set ?es \<Longrightarrow> \<not> strings_Contains e ''..''"
    using assms Contains_trans path_element_Contains by blast
  have "\<not> strings_Contains ''..'' ''..'' \<Longrightarrow> False" by simp
  then have nd: "''..'' \<notin> set ?es" using el by blast
  have sub: "\<And>r. set (clean_elements r [] ?es) \<subseteq> set ?es"
    using clean_elements_subset[OF nd] by fastforce
  have j: "\<And>r. \<not> strings_Contains (join_elements (clean_elements r [] ?es)) ''..''"
    using Contains_dotdot_join sub el by blast
  show ?thesis
    unfolding filepath_Clean_def Let_def
    using j by (auto simp: Contains_dotdot_Cons)
qed

text \<open>
  C9, as amended. \<open>ValidateFilePath\<close> looks for the two characters \<^verbatim>\<open>..\<close> in the
  cleaned path. It returns an error for every path whose cleaned form still has a
  \<^verbatim>\<open>..\<close> element, and \<^verbatim>\<open>nil\<close> for every path that does not contain the two
  characters \<^verbatim>\<open>..\<close> at all.
\<close>

theorem ValidateFilePath_traversal:
  "(''..'' \<in> set (path_elements (filepath_Clean path)) \<longrightarrow> ValidateFilePath path \<noteq> None) \<and>
   (\<not> strings_Contains path ''..'' \<longrightarrow> ValidateFilePath path = None)"
  using Clean_no_dotdot path_element_Contains
  by (auto simp: ValidateFilePath_def Let_def)

theorem ValidateFilePath_traversal_witness:
  "''..'' \<in> set (path_elements (filepath_Clean ''../unsafe/path'')) \<and>
   ValidateFilePath ''../unsafe/path'' \<noteq> None \<and>
   \<not> strings_Contains ''/safe/path'' ''..'' \<and>
   ValidateFilePath ''/safe/path'' = None"
  using ValidateFilePath_traversal [of "''../unsafe/path''"]
    ValidateFilePath_traversal [of "''/safe/path''"]
  by (simp add: filepath_Clean_def)

text \<open>
  C9 as stated fails both ways: \<^verbatim>\<open>a/../b\<close> has a \<^verbatim>\<open>..\<close> element and is accepted
  (\<^verbatim>\<open>Clean\<close> cancels the element against \<^verbatim>\<open>a\<close>), and \<^verbatim>\<open>a..b\<close> has none and is
  rejected.
\<close>

theorem ValidateFilePath_traversal_counterexample:
  "''..'' \<in> set (path_elements ''a/../b'') \<and> ValidateFilePath ''a/../b'' = None \<and>
   ''..'' \<notin> set (path_elements ''a..b'') \<and> ValidateFilePath ''a..b'' \<noteq> None"
  by (simp add: ValidateFilePath_def filepath_Clean_def)

section \<open>Statistics: counting and the derived figures\<close>

lemma sint_ucast_32_64: "sint (ucast (n :: 32 word) :: 64 word) = uint n"
proof -
  have a: "uint n < 4294967296" using uint_lt2p [of n] by simp
  have "- (2 ^ 63) \<le> uint n" by (rule order_trans [of _ 0]) simp_all
  moreover have "uint n < 2 ^ 63" using a by simp
  ultimately have "signed_take_bit 63 (uint n) = uint n"
    by (rule signed_take_bit_int_eq_self)
  then show ?thesis by (simp add: signed_ucast_eq)
qed

lemma sdiv_pos_divisor:
  assumes "0 < (m::int)"
  shows "0 \<le> k \<Longrightarrow> 0 \<le> k sdiv m \<and> k sdiv m \<le> k"
    and "k < 0 \<Longrightarrow> k \<le> k sdiv m \<and> k sdiv m \<le> 0"
proof -
  have le: "\<bar>k\<bar> div m \<le> \<bar>k\<bar>"
    using zdiv_mono2 [of "\<bar>k\<bar>" 1 m] assms by simp
  have ge: "0 \<le> \<bar>k\<bar> div m" using assms by (simp add: pos_imp_zdiv_nonneg_iff)
  show "0 \<le> k \<Longrightarrow> 0 \<le> k sdiv m \<and> k sdiv m \<le> k"
    using le ge assms by (cases "k = 0") (simp_all add: signed_divide_int_def)
  show "k < 0 \<Longrightarrow> k \<le> k sdiv m \<and> k sdiv m \<le> 0"
    using le ge assms by (simp add: signed_divide_int_def)
qed

lemma sint_int64_div:
  assumes b: "0 < sint b"
  shows "sint (int64_div a b) = sint a sdiv sint b"
proof -
  have lo: "- 9223372036854775808 \<le> sint a" and hi: "sint a < 9223372036854775808"
    using sint_range_size [of a] by (simp_all add: word_size)
  have "- 9223372036854775808 \<le> sint a sdiv sint b \<and> sint a sdiv sint b < 9223372036854775808"
  proof (cases "0 \<le> sint a")
    case True
    then show ?thesis using sdiv_pos_divisor(1) [OF b, of "sint a"] hi by linarith
  next
    case False
    then show ?thesis using sdiv_pos_divisor(2) [OF b, of "sint a"] lo by linarith
  qed
  then have "- (2 ^ 63) \<le> sint a sdiv sint b" and "sint a sdiv sint b < 2 ^ 63" by simp_all
  then have "signed_take_bit 63 (sint a sdiv sint b) = sint a sdiv sint b"
    by (rule signed_take_bit_int_eq_self)
  then show ?thesis by (simp add: int64_div_def sint_sbintrunc')
qed

lemma zero_less_word_iff: "0 < (n :: 'a::len word) \<longleftrightarrow> n \<noteq> 0"
  by (simp add: word_greater_zero_iff)

lemma Calculate_AverageDuration:
  "0 < TotalFiles cs \<Longrightarrow>
   sint (AverageDuration (Calculate cs)) = sint (TotalDuration cs) sdiv uint (TotalFiles cs)"
proof -
  assume t: "0 < TotalFiles cs"
  then have "0 < uint (TotalFiles cs)" by (simp add: word_less_def)
  then have "0 < sint (ucast (TotalFiles cs) :: 64 word)" by (simp add: sint_ucast_32_64)
  from sint_int64_div [OF this] t show ?thesis
    by (simp add: Calculate_def Let_def sint_ucast_32_64)
qed

lemma Calculate_fields:
  "AverageDuration (Calculate cs) =
     (if 0 < TotalFiles cs then int64_div (TotalDuration cs) (ucast (TotalFiles cs))
      else AverageDuration cs)"
  "SpaceSaved (Calculate cs) =
     (if 0 < TotalSizeBefore cs then TotalSizeBefore cs - TotalSizeAfter cs else SpaceSaved cs)"
  "CompressionRatio (Calculate cs) =
     (if 0 < TotalSizeBefore cs
      then float64_div (float64_of_nat (unat (TotalSizeAfter cs)))
                       (float64_of_nat (unat (TotalSizeBefore cs)))
      else CompressionRatio cs)"
  "ConvertedFiles (Calculate cs) = ConvertedFiles cs"
  "TotalSizeBefore (Calculate cs) = TotalSizeBefore cs"
  "TotalSizeAfter (Calculate cs) = TotalSizeAfter cs"
  by (simp_all add: Calculate_def Let_def)

lemma AddResult_no_error:
  assumes "Error r = None"
  shows "TotalFiles (fst (AddResult cs r)) = TotalFiles cs + 1"
    and "FailedFiles (fst (AddResult cs r)) = FailedFiles cs"
    and "SkippedFiles (fst (AddResult cs r)) =
           (if OriginalPath r = [] \<and> NewSize r = 0 then SkippedFiles cs + 1 else SkippedFiles cs)"
    and "ConvertedFiles (fst (AddResult cs r)) =
           (if OriginalPath r = [] \<and> NewSize r = 0 then ConvertedFiles cs else ConvertedFiles cs + 1)"
    and "TotalSizeBefore (fst (AddResult cs r)) =
           (if OriginalPath r = [] \<and> NewSize r = 0 then TotalSizeBefore cs
            else TotalSizeBefore cs + OriginalSize r)"
    and "TotalSizeAfter (fst (AddResult cs r)) =
           (if OriginalPath r = [] \<and> NewSize r = 0 then TotalSizeAfter cs
            else TotalSizeAfter cs + NewSize r)"
  using assms by (simp_all add: AddResult_def Let_def split: option.splits)

lemma AddResult_error:
  assumes "Error r = Some err"
  shows "TotalFiles (fst (AddResult cs r)) = TotalFiles cs + 1"
    and "FailedFiles (fst (AddResult cs r)) = FailedFiles cs + 1"
    and "SkippedFiles (fst (AddResult cs r)) = SkippedFiles cs"
    and "ConvertedFiles (fst (AddResult cs r)) = ConvertedFiles cs"
    and "Corrupted (Failures (fst (AddResult cs r))) =
           (if errors_Is err ErrCorruptedImage then Corrupted (Failures cs) + 1
            else Corrupted (Failures cs))"
    and "Permission (Failures (fst (AddResult cs r))) =
           (if \<not> errors_Is err ErrCorruptedImage \<and> errors_Is err ErrPermissionDenied
            then Permission (Failures cs) + 1 else Permission (Failures cs))"
    and "Unsupported (Failures (fst (AddResult cs r))) =
           (if \<not> errors_Is err ErrCorruptedImage \<and> \<not> errors_Is err ErrPermissionDenied \<and>
               errors_Is err ErrUnsupportedFormat
            then Unsupported (Failures cs) + 1 else Unsupported (Failures cs))"
    and "Other (Failures (fst (AddResult cs r))) =
           (if \<not> errors_Is err ErrCorruptedImage \<and> \<not> errors_Is err ErrPermissionDenied \<and>
               \<not> errors_Is err ErrUnsupportedFormat
            then Other (Failures cs) + 1 else Other (Failures cs))"
  using assms by (simp_all add: AddResult_def Let_def)

lemma float64_div_500_1000: "float64_div (float64_of_nat 500) (float64_of_nat 1000) = 1 / 2"
  by (simp add: float64_div_def float64_of_nat_def round_half_even_def compute_floorlog)

section \<open>Rounding: the scale factor stays below one\<close>

lemma float64_of_nat_exact: "n < 2 ^ 53 \<Longrightarrow> float64_of_nat n = n"
  by (simp add: float64_of_nat_def floorlog_le_iff Let_def)

lemma float64_of_nat_large:
  assumes "2 ^ 53 \<le> n"
  shows "2 ^ 53 \<le> float64_of_nat n"
proof -
  define l where "l = floorlog 2 n"
  define s where "s = l - 53"
  define q where "q = n div 2 ^ s"
  have n0: "0 < n" using assms by (simp add: order.strict_trans2 [of 0 "2 ^ 53"])
  have lb: "2 ^ (l - 1) \<le> n" and ub: "n < 2 ^ l"
    using floorlog_bounds [of n 2] n0 by (simp_all add: l_def)
  have "\<not> n < 2 ^ 53" using assms by simp
  then have l53: "53 < l" using floorlog_le_iff [of 2 n 53] by (simp add: l_def)
  then have s1: "1 \<le> s" and ls: "l - 1 = 52 + s" by (simp_all add: s_def)
  have "(2::nat) ^ 52 * 2 ^ s \<le> n" using lb ls by (simp add: power_add)
  then have q52: "2 ^ 52 \<le> q"
    unfolding q_def by (metis div_le_mono nonzero_mult_div_cancel_right power_not_zero zero_neq_numeral)
  have "(2::nat) ^ 53 = 2 ^ 52 * 2 ^ 1" by simp
  also have "\<dots> \<le> 2 ^ 52 * 2 ^ s" using s1 by (intro mult_le_mono2 power_increasing) simp_all
  also have "\<dots> \<le> q * 2 ^ s" using q52 by (intro mult_le_mono1)
  finally have a: "2 ^ 53 \<le> q * 2 ^ s" .
  then have b: "2 ^ 53 \<le> (q + 1) * 2 ^ s" by (simp add: add_mult_distrib)
  show ?thesis
    using l53 a b unfolding float64_of_nat_def Let_def l_def [symmetric] s_def [symmetric] q_def [symmetric]
    by (simp split: if_splits)
qed

lemma float64_of_nat_less_iff:
  assumes "M < 2 ^ 53"
  shows "M < float64_of_nat n \<longleftrightarrow> M < n"
proof (cases "n < 2 ^ 53")
  case True
  then show ?thesis by (simp add: float64_of_nat_exact)
next
  case False
  then have "2 ^ 53 \<le> n" by simp
  then have "2 ^ 53 \<le> float64_of_nat n" by (rule float64_of_nat_large)
  then show ?thesis using assms False by linarith
qed

lemma floorlog_powi_bounds:
  assumes "0 < n"
  shows "(2::rat) powi (int (floorlog 2 n) - 1) \<le> of_nat n"
    and "of_nat n < (2::rat) powi (int (floorlog 2 n))"
proof -
  define l where "l = floorlog 2 n"
  have lb: "2 ^ (l - 1) \<le> n" and ub: "n < 2 ^ l"
    using floorlog_bounds [of n 2] assms by (simp_all add: l_def)
  have l1: "1 \<le> l" using assms by (simp add: l_def floorlog_def)
  then have e: "int l - 1 = int (l - 1)" by simp
  have "(of_nat (2 ^ (l - 1)) :: rat) \<le> of_nat n" using lb by (simp only: of_nat_le_iff)
  then show "(2::rat) powi (int (floorlog 2 n) - 1) \<le> of_nat n"
    unfolding l_def [symmetric] e by simp
  have "(of_nat n :: rat) < of_nat (2 ^ l)" using ub by (simp only: of_nat_less_iff)
  then show "of_nat n < (2::rat) powi (int (floorlog 2 n))"
    unfolding l_def [symmetric] by simp
qed

lemma round_half_even_le:
  assumes "x < of_int N - 1 / 2"
  shows "round_half_even x \<le> N - 1"
proof -
  have "x < of_int N" using assms by linarith
  then have "\<lfloor>x\<rfloor> < N" by (simp only: floor_less_iff)
  then have fl: "\<lfloor>x\<rfloor> \<le> N - 1" by simp
  show ?thesis
  proof (cases "\<lfloor>x\<rfloor> = N - 1")
    case True
    then have "x - of_int \<lfloor>x\<rfloor> < 1 / 2" using assms by simp
    then show ?thesis using True by (simp add: round_half_even_def Let_def)
  next
    case False
    then have "\<lfloor>x\<rfloor> + 1 \<le> N - 1" using fl by simp
    then show ?thesis by (simp add: round_half_even_def Let_def)
  qed
qed

lemma round_half_even_le_ceil:
  assumes "x \<le> of_int N"
  shows "round_half_even x \<le> N"
proof (cases "x = of_int N")
  case True
  then show ?thesis by (simp add: round_half_even_def Let_def)
next
  case False
  then have "x < of_int N" using assms by simp
  then have "\<lfloor>x\<rfloor> < N" by (simp only: floor_less_iff)
  then show ?thesis by (simp add: round_half_even_def Let_def)
qed

lemma round_half_even_ge:
  assumes "of_int N \<le> x"
  shows "N \<le> round_half_even x"
proof -
  have "N \<le> \<lfloor>x\<rfloor>" using assms by (simp add: le_floor_iff)
  then show ?thesis by (simp add: round_half_even_def Let_def)
qed


lemma float64_div_exponent:
  assumes m: "0 < m" and d: "0 < d"
  defines "x \<equiv> (of_nat m / of_nat d :: rat)"
  defines "k \<equiv> int (floorlog 2 m) - int (floorlog 2 d)"
  defines "e \<equiv> (if 2 powi k \<le> x then k else k - 1)"
  shows "2 powi e \<le> x" and "x < 2 powi (e + 1)"
proof -
  let ?fm = "int (floorlog 2 m)" and ?fd = "int (floorlog 2 d)"
  have dpos: "(0::rat) < of_nat d" using d by simp
  have lo: "(2::rat) powi (?fm - 1) / 2 powi ?fd < x"
  proof -
    have "(2::rat) powi (?fm - 1) / 2 powi ?fd \<le> of_nat m / 2 powi ?fd"
      using floorlog_powi_bounds(1) [OF m] by (simp add: divide_right_mono)
    also have "\<dots> < of_nat m / of_nat d"
      using floorlog_powi_bounds(2) [OF d] m dpos by (intro divide_strict_left_mono) simp_all
    finally show ?thesis by (simp add: x_def)
  qed
  have hi: "x < (2::rat) powi ?fm / 2 powi (?fd - 1)"
  proof -
    have "of_nat m / of_nat d < (2::rat) powi ?fm / of_nat d"
      using floorlog_powi_bounds(2) [OF m] dpos by (simp add: divide_strict_right_mono)
    also have "\<dots> \<le> 2 powi ?fm / 2 powi (?fd - 1)"
      using floorlog_powi_bounds(1) [OF d] dpos
      by (intro divide_left_mono) (simp_all add: mult_pos_pos)
    finally show ?thesis by (simp add: x_def)
  qed
  have k1: "k - 1 = (?fm - 1) - ?fd" and k2: "k + 1 = ?fm - (?fd - 1)"
    by (simp_all add: k_def)
  have eq1: "(2::rat) powi (k - 1) = 2 powi (?fm - 1) / 2 powi ?fd"
    unfolding k1 by (rule power_int_diff) simp
  have eq2: "(2::rat) powi (k + 1) = 2 powi ?fm / 2 powi (?fd - 1)"
    unfolding k2 by (rule power_int_diff) simp
  have lo': "(2::rat) powi (k - 1) < x" using lo unfolding eq1 .
  have hi': "x < (2::rat) powi (k + 1)" using hi unfolding eq2 .
  show "2 powi e \<le> x" using lo' by (simp add: e_def)
  show "x < 2 powi (e + 1)" using hi' by (auto simp: e_def not_le)
qed


lemma float64_div_bounds:
  assumes m: "0 < m" and md: "m < d" and m53: "m < 2 ^ 53"
  shows "0 < float64_div m d" and "float64_div m d < 1"
proof -
  define x where "x = (of_nat m / of_nat d :: rat)"
  define k where "k = int (floorlog 2 m) - int (floorlog 2 d)"
  define e where "e = (if 2 powi k \<le> x then k else k - 1)"
  define u where "u = (2::rat) powi (e - 52)"
  define y where "y = x / u"
  have d: "0 < d" using m md by simp
  have res: "float64_div m d = of_int (round_half_even y) * u"
    using m by (simp add: float64_div_def Let_def x_def k_def e_def u_def y_def)
  have P1: "2 powi e \<le> x" and P2: "x < 2 powi (e + 1)"
    using float64_div_exponent [OF m d] unfolding x_def k_def e_def by simp_all
  have x1: "x < 1" using md d by (simp add: x_def)
  have upos: "0 < u" by (simp add: u_def)
  have e_neg: "e < 0"
  proof (rule ccontr)
    assume "\<not> e < 0"
    then have "(1::rat) \<le> 2 powi e" by (intro one_le_power_int) simp_all
    then show False using P1 x1 by simp
  qed
  have pe: "(2::rat) powi e = 2 ^ 52 * u"
    using power_int_add [of "2::rat" 52 "e - 52"] by (simp add: u_def)
  have pe1: "(2::rat) powi (e + 1) = 2 ^ 53 * u"
    using power_int_add [of "2::rat" 53 "e - 52"] by (simp add: u_def add.commute)
  have ylo: "2 ^ 52 \<le> y" using P1 upos unfolding pe y_def by (simp add: pos_le_divide_eq)
  have yhi: "y < 2 ^ 53" using P2 upos unfolding pe1 y_def by (simp add: pos_divide_less_eq)
  have "of_int (2 ^ 52) \<le> y" using ylo by simp
  then have rlo: "2 ^ 52 \<le> round_half_even y" by (rule round_half_even_ge)
  then have "(0::rat) < of_int (round_half_even y)" by simp
  then show "0 < float64_div m d" unfolding res using upos by (simp add: mult_pos_pos)
  show "float64_div m d < 1"
  proof (cases "e = - 1")
    case True
    have u53: "u = 1 / 2 ^ 53" unfolding u_def True by (simp add: power_int_minus_divide)
    have "1 / 2 \<le> x" using P1 unfolding True by (simp add: power_int_minus_divide)
    then have "of_nat d \<le> (2::rat) * of_nat m" using d by (simp add: x_def pos_le_divide_eq)
    then have "d \<le> 2 * m" by (metis of_nat_le_iff of_nat_mult of_nat_numeral)
    then have d54: "d < 2 ^ 54" using m53 by simp
    have yx: "y = of_nat m * 2 ^ 53 / of_nat d" by (simp add: y_def x_def u53)
    have "m + 1 \<le> d" using md by simp
    then have md': "(of_nat m :: rat) \<le> of_nat d - 1" by (metis of_nat_1 of_nat_add of_nat_le_iff le_diff_eq)
    have dr: "(of_nat d :: rat) < 2 ^ 54" using d54 by (metis of_nat_less_iff of_nat_numeral of_nat_power)
    have dpos: "(0::rat) < of_nat d" using d by simp
    have "y \<le> (of_nat d - 1) * 2 ^ 53 / of_nat d"
      unfolding yx using md' dpos by (intro divide_right_mono mult_right_mono) simp_all
    also have "\<dots> = 2 ^ 53 - 2 ^ 53 / of_nat d" using dpos by (simp add: field_simps)
    also have "\<dots> < 2 ^ 53 - 1 / 2"
    proof -
      have "(1::rat) / 2 < 2 ^ 53 / of_nat d" using dr dpos by (simp add: field_simps)
      then show ?thesis by simp
    qed
    finally have "y < of_int (2 ^ 53) - 1 / 2" by simp
    then have "round_half_even y \<le> 2 ^ 53 - 1" by (rule round_half_even_le)
    then have "(of_int (round_half_even y) :: rat) \<le> of_int (2 ^ 53 - 1)" by (simp only: of_int_le_iff)
    then have "(of_int (round_half_even y) :: rat) * u \<le> of_int (2 ^ 53 - 1) * u"
      using upos by (intro mult_right_mono) simp_all
    also have "\<dots> < 1" by (simp add: u53)
    finally show ?thesis unfolding res .
  next
    case False
    then have e2: "e + 1 \<le> - 1" using e_neg by simp
    have "y \<le> of_int (2 ^ 53)" using yhi by simp
    then have "round_half_even y \<le> 2 ^ 53" by (rule round_half_even_le_ceil)
    then have "(of_int (round_half_even y) :: rat) \<le> of_int (2 ^ 53)" by (simp only: of_int_le_iff)
    then have "(of_int (round_half_even y) :: rat) * u \<le> of_int (2 ^ 53) * u"
      using upos by (intro mult_right_mono) simp_all
    also have "\<dots> = 2 powi (e + 1)" by (simp add: pe1)
    also have "\<dots> \<le> 2 powi (- 1)" using e2 by (intro power_int_increasing) simp_all
    also have "\<dots> < 1" by (simp add: power_int_minus_divide)
    finally show ?thesis unfolding res .
  qed
qed

section \<open>The paths through \<open>ConvertWithOutputPath\<close>\<close>

lemma time_Now_eq: "time_Now env w = (clock_at env (clock_reads w), w\<lparr>clock_reads := Suc (clock_reads w)\<rparr>)"
  by (simp add: time_Now_def)

lemma os_Stat_files_cong: "files w' = files w \<Longrightarrow> os_Stat w' p = os_Stat w p"
  by (simp add: os_Stat_def)

lemma os_Stat_clock [simp]: "os_Stat (w\<lparr>clock_reads := n\<rparr>) p = os_Stat w p"
  by (simp add: os_Stat_def)

lemma isCacheValid_clock [simp]:
  "isCacheValid ic (w\<lparr>clock_reads := n\<rparr>) e t p = isCacheValid ic w e t p"
  by (simp add: isCacheValid_def)

lemma body_stat_fail:
  assumes "os_Stat w path = Inl err"
  shows "ConvertWithOutputPath_body env ic w path format outPath =
     (Inr \<lparr>OriginalPath = path, NewPath = [], OriginalSize = 0, NewSize = 0, Duration = 0,
           Error = Some (WrapError ''failed to stat file: '' err [])\<rparr>, ic, w)"
  using assms by (simp add: ConvertWithOutputPath_body_def)

lemma body_already:
  assumes "os_Stat w path = Inr st"
    and "isAlreadyInFormat (getFileExtension env path) (strings_ToLower (unicode_lower env) format)"
  shows "ConvertWithOutputPath_body env ic w path format outPath =
     (Inr \<lparr>OriginalPath = path, NewPath = [], OriginalSize = Size st, NewSize = 0, Duration = 0,
           Error = Some (ErrorString ''file already in target format'')\<rparr>, ic, w)"
  using assms by (simp add: ConvertWithOutputPath_body_def Let_def)

lemma body_cache_hit:
  assumes "os_Stat w path = Inr st"
    and "\<not> isAlreadyInFormat (getFileExtension env path) (strings_ToLower (unicode_lower env) format)"
    and "cache ic (getCacheKey env ic path (strings_ToLower (unicode_lower env) format)) = Some e"
    and "isCacheValid ic w e (ModTime st)
           (if outPath \<noteq> [] then outPath
            else strings_TrimSuffix path (filepath_Ext path) @ ''.'' @ strings_ToLower (unicode_lower env) format)"
  shows "ConvertWithOutputPath_body env ic w path format outPath =
     (Inr \<lparr>OriginalPath = path,
           NewPath = (if outPath \<noteq> [] then outPath
            else strings_TrimSuffix path (filepath_Ext path) @ ''.'' @ strings_ToLower (unicode_lower env) format),
           OriginalSize = Size st, NewSize = outputSize e, Duration = 0,
           Error = None\<rparr>, ic, w)"
  using assms by (simp add: ConvertWithOutputPath_body_def Let_def)

lemma Convert_wrap:
  assumes "ConvertWithOutputPath_body env ic (w\<lparr>clock_reads := Suc (clock_reads w)\<rparr>) path format [] = (Inr r, ic', w')"
  shows "Convert env ic w path format =
     (Inr (r\<lparr>Duration := time_Sub (clock_at env (clock_reads w')) (clock_at env (clock_reads w))\<rparr>),
      ic', w'\<lparr>clock_reads := Suc (clock_reads w')\<rparr>)"
  using assms by (simp add: Convert_def ConvertWithOutputPath_def time_Now_eq time_Since_def)


subsection \<open>errors of the operating system are no sentinels\<close>













subsection \<open>the backup leaves options and cache alone\<close>

lemma copyFileOptimized_ic:
  "copyFileOptimized env ic w src dst = (r, ic', w') \<Longrightarrow>
     options ic' = options ic \<and> cache ic' = cache ic"
  unfolding copyFileOptimized_def
  by (auto simp: Let_def split: sum.splits prod.splits option.splits)

lemma createBackup_ic:
  "createBackup env ic w p = (r, ic', w') \<Longrightarrow> options ic' = options ic \<and> cache ic' = cache ic"
  unfolding createBackup_def
  by (auto simp: Let_def dest: copyFileOptimized_ic split: prod.splits option.splits)


subsection \<open>what depends on the options only\<close>

lemma getConfigHash_cong: "options ic' = options ic \<Longrightarrow> getConfigHash ic' = getConfigHash ic"
  by (simp add: getConfigHash_def)

lemma getCacheKey_cong:
  "options ic' = options ic \<Longrightarrow> getCacheKey env ic' p f = getCacheKey env ic p f"
  by (simp add: getCacheKey_def getConfigHash_def)

lemma getExportParams_cong:
  "options ic' = options ic \<Longrightarrow> getExportParams env ic' f = getExportParams env ic f"
  by (simp add: getExportParams_def Let_def)

lemma convertImage_scale_cong:
  "options ic' = options ic \<Longrightarrow> convertImage_scale ic' img = convertImage_scale ic img"
  by (simp add: convertImage_scale_def Let_def)

lemma convertImage_cong:
  assumes "options ic' = options ic"
  shows "convertImage env ic' w i p f = convertImage env ic w i p f"
proof -
  have a: "\<And>f. getExportParams env ic' f = getExportParams env ic f"
    using assms by (rule getExportParams_cong)
  have b: "\<And>img. convertImage_scale ic' img = convertImage_scale ic img"
    using assms by (rule convertImage_scale_cong)
  show ?thesis unfolding convertImage_def a b assms by (rule refl)
qed

subsection \<open>a conversion that succeeds\<close>

lemma os_WriteFile_success:
  "os_WriteFile env w p d = (None, w') \<Longrightarrow>
     p \<noteq> [] \<and> (\<exists>t. files w' p = Regular d t) \<and> effects w' = effects w @ [FsWrite p d]"
  by (auto simp: os_WriteFile_def time_Now_def split: if_splits node.splits)

lemma convertImage_success:
  assumes "convertImage env ic w i p f = (None, w')"
  shows "\<exists>img bytes t. vips_encode env img (getExportParams env ic f) = Inr bytes \<and>
           p \<noteq> [] \<and> files w' p = Regular bytes t \<and>
           CodecExport (getExportParams env ic f) \<in> set (effects w') \<and>
           FsWrite p bytes \<in> set (effects w')"
  using assms unfolding convertImage_def
  by (auto simp: Let_def vips_Export_def vips_Resize_def vips_NewImageFromFile_def
      dest!: os_WriteFile_success
      split: sum.splits prod.splits option.splits if_splits node.splits)

lemma os_Stat_Regular:
  "p \<noteq> [] \<Longrightarrow> files w p = Regular d t \<Longrightarrow>
     os_Stat w p = Inr \<lparr>Size = of_nat (length d), ModTime = t, IsDir = False\<rparr>"
  by (simp add: os_Stat_def)

lemma os_Remove_effects: "os_Remove w p = (r, w') \<Longrightarrow> set (effects w) \<subseteq> set (effects w')"
  by (auto simp: os_Remove_def split: if_splits node.splits)


lemma ConvertWithOutputPath_body_stages:
  "ConvertWithOutputPath_body env ic w path format outPath =
     (case os_Stat w path of
        Inl err \<Rightarrow>
          (Inr \<lparr>OriginalPath = path, NewPath = [], OriginalSize = 0, NewSize = 0, Duration = 0,
                Error = Some (WrapError ''failed to stat file: '' err [])\<rparr>, ic, w)
      | Inr st \<Rightarrow>
          (let fmt = strings_ToLower (unicode_lower env) format;
               newPath = (if outPath \<noteq> [] then outPath
                          else strings_TrimSuffix path (filepath_Ext path) @ ''.'' @ fmt);
               key = getCacheKey env ic path fmt;
               result = \<lparr>OriginalPath = path, NewPath = newPath, OriginalSize = Size st,
                         NewSize = 0, Duration = 0, Error = None\<rparr>
           in if isAlreadyInFormat (getFileExtension env path) fmt
              then (Inr \<lparr>OriginalPath = path, NewPath = [], OriginalSize = Size st, NewSize = 0,
                         Duration = 0, Error = Some (ErrorString ''file already in target format'')\<rparr>,
                    ic, w)
              else (case cache ic key of
                      Some cachedEntry \<Rightarrow>
                        if isCacheValid ic w cachedEntry (ModTime st) newPath
                        then (Inr (result\<lparr>NewSize := outputSize cachedEntry\<rparr>), ic, w)
                        else convert_uncached env w path fmt key (ModTime st) result
                               (ic\<lparr>cache := (cache ic)(key := None)\<rparr>)
                    | None \<Rightarrow> convert_uncached env w path fmt key (ModTime st) result ic)))"
  unfolding ConvertWithOutputPath_body_def convert_uncached_def refresh_from_disk_def
    store_converted_def remove_original_def
  by (simp add: Let_def split: sum.splits option.splits)


lemma refresh_from_disk_frame:
  assumes "refresh_from_disk env w key result ic = (result', ic', w')"
  shows "options ic' = options ic" and "bufPool ic' = bufPool ic"
    and "NewPath result' = NewPath result" and "OriginalPath result' = OriginalPath result"
    and "OriginalSize result' = OriginalSize result"
    and "Error result' = Error result" and "files w' = files w" and "effects w' = effects w"
    and "\<And>k. k \<noteq> key \<Longrightarrow> cache ic' k = cache ic k"
  using assms by (auto simp: refresh_from_disk_def time_Now_eq split: sum.splits)

lemma backup_step_ic:
  assumes "(if Backup (options ic) then createBackup env ic w path else (Inr None, ic, w)) = (rb, ic', w')"
  shows "options ic' = options ic \<and> cache ic' = cache ic"
proof (cases "Backup (options ic)")
  case True
  then have "createBackup env ic w path = (rb, ic', w')" using assms by simp
  from createBackup_ic [OF this] show ?thesis .
next
  case False
  then show ?thesis using assms by simp
qed

lemma remove_original_frame:
  assumes "remove_original w path result ic = (Inr r, ic', w')" and "Error r = None"
  shows "r = result" and "ic' = ic" and "set (effects w) \<subseteq> set (effects w')"
  using assms os_Remove_effects [of w path]
  by (auto simp: remove_original_def split: if_splits prod.splits option.splits)

lemma convert_uncached_converted:
  assumes run: "convert_uncached env w path fmt key mt result0 ic0 = (Inr r, ic', w')"
    and ok: "Error r = None"
    and wet: "\<not> DryRun (options ic0)"
  shows "NewPath r = NewPath result0 \<and> OriginalPath r = OriginalPath result0 \<and>
         options ic' = options ic0 \<and>
         cache ic' key = Some \<lparr>outputPath = NewPath result0, outputSize = NewSize r,
                               lastModified = mt, configHash = getConfigHash ic0\<rparr> \<and>
         (\<exists>img bytes. vips_encode env img (getExportParams env ic0 fmt) = Inr bytes \<and>
            NewSize r = of_nat (length bytes) \<and>
            CodecExport (getExportParams env ic0 fmt) \<in> set (effects w') \<and>
            FsWrite (NewPath result0) bytes \<in> set (effects w'))"
proof -
  obtain res1 ic1 w1 where s1: "refresh_from_disk env w key result0 ic0 = (res1, ic1, w1)"
    using prod_cases3 by blast
  note f1 = refresh_from_disk_frame [OF s1]
  have wet1: "\<not> DryRun (options ic1)" using wet f1(1) by simp
  obtain rb ic2 w2 where s2:
    "(if Backup (options ic1) then createBackup env ic1 w1 path else (Inr None, ic1, w1)) = (rb, ic2, w2)"
    using prod_cases3 by blast
  have o2: "options ic2 = options ic0" using backup_step_ic [OF s2] f1(1) by simp
  have run2: "(case rb of
       Inl p \<Rightarrow> (Inl p, ic2, w2)
     | Inr (Some err) \<Rightarrow> (Inr (res1\<lparr>Error := Some (WrapError ''backup failed: '' err [])\<rparr>), ic2, w2)
     | Inr None \<Rightarrow>
         (case convertImage env ic2 w2 path (NewPath res1) fmt of
            (Some err, w3) \<Rightarrow> (Inr (res1\<lparr>Error := Some err\<rparr>), ic2, w3)
          | (None, w3) \<Rightarrow>
              (case store_converted w3 key mt res1 ic2 of
                 (res3, ic3) \<Rightarrow> remove_original w3 path res3 ic3))) = (Inr r, ic', w')"
    using run wet1 unfolding convert_uncached_def s1
    by (simp add: s2 split: sum.splits option.splits)
  from run2 ok obtain w3 where rb: "rb = Inr None"
    and ci: "convertImage env ic2 w2 path (NewPath res1) fmt = (None, w3)"
    by (auto split: sum.splits option.splits prod.splits)
  from convertImage_success [OF ci] obtain img bytes t where
    enc: "vips_encode env img (getExportParams env ic2 fmt) = Inr bytes"
    and np: "NewPath res1 \<noteq> []" and f3: "files w3 (NewPath res1) = Regular bytes t"
    and e1: "CodecExport (getExportParams env ic2 fmt) \<in> set (effects w3)"
    and e2: "FsWrite (NewPath res1) bytes \<in> set (effects w3)"
    by blast
  have st3: "os_Stat w3 (NewPath res1) = Inr \<lparr>Size = of_nat (length bytes), ModTime = t, IsDir = False\<rparr>"
    using np f3 by (rule os_Stat_Regular)
  define res3 where "res3 = res1\<lparr>NewSize := of_nat (length bytes)\<rparr>"
  define ic3 where "ic3 = ic2\<lparr>cache := (cache ic2)(key \<mapsto>
      \<lparr>outputPath = NewPath res1, outputSize = of_nat (length bytes),
       lastModified = mt, configHash = getConfigHash ic2\<rparr>)\<rparr>"
  have s3: "store_converted w3 key mt res1 ic2 = (res3, ic3)"
    by (simp add: store_converted_def st3 res3_def ic3_def)
  have s4: "remove_original w3 path res3 ic3 = (Inr r, ic', w')"
    using run2 by (simp add: rb ci s3)
  note f4 = remove_original_frame [OF s4 ok]
  have gp: "getExportParams env ic2 fmt = getExportParams env ic0 fmt"
    using o2 by (rule getExportParams_cong)
  have gh: "getConfigHash ic2 = getConfigHash ic0" using o2 by (rule getConfigHash_cong)
  have "NewPath r = NewPath result0" "OriginalPath r = OriginalPath result0"
    "NewSize r = of_nat (length bytes)"
    using f4(1) f1 by (simp_all add: res3_def)
  moreover have "options ic' = options ic0" using f4(2) o2 by (simp add: ic3_def)
  moreover have "cache ic' key = Some \<lparr>outputPath = NewPath result0, outputSize = NewSize r,
                               lastModified = mt, configHash = getConfigHash ic0\<rparr>"
    using f4(1,2) f1(3) gh by (simp add: ic3_def res3_def)
  moreover have "CodecExport (getExportParams env ic0 fmt) \<in> set (effects w')"
    using e1 f4(3) gp by auto
  moreover have "FsWrite (NewPath result0) bytes \<in> set (effects w')"
    using e2 f4(3) f1(3) by auto
  ultimately show ?thesis using enc gp by auto
qed

subsection \<open>the dry run\<close>

lemma body_dry_run:
  fixes env ic w path format outPath
  defines "fmt \<equiv> strings_ToLower (unicode_lower env) format"
  defines "newPath \<equiv> (if outPath \<noteq> [] then outPath
                        else strings_TrimSuffix path (filepath_Ext path) @ ''.'' @ fmt)"
  defines "key \<equiv> getCacheKey env ic path fmt"
  assumes stat: "os_Stat w path = Inr st"
    and nal: "\<not> isAlreadyInFormat (getFileExtension env path) fmt"
    and dry: "DryRun (options ic)"
    and nohit: "\<forall>e. cache ic key = Some e \<longrightarrow> \<not> isCacheValid ic w e (ModTime st) newPath"
  shows "ConvertWithOutputPath_body env ic w path format outPath =
     (case os_Stat w newPath of
        Inr newStat \<Rightarrow>
          (Inr \<lparr>OriginalPath = path, NewPath = newPath, OriginalSize = Size st,
                NewSize = Size newStat, Duration = 0, Error = None\<rparr>,
           ic\<lparr>cache := (cache ic)(key \<mapsto>
              \<lparr>outputPath = newPath, outputSize = Size newStat,
               lastModified = clock_at env (clock_reads w), configHash = getConfigHash ic\<rparr>)\<rparr>,
           w\<lparr>clock_reads := Suc (clock_reads w)\<rparr>)
      | Inl err \<Rightarrow>
          (Inr \<lparr>OriginalPath = path, NewPath = newPath, OriginalSize = Size st,
                NewSize = 0, Duration = 0, Error = None\<rparr>,
           ic\<lparr>cache := (cache ic)(key := None)\<rparr>, w))"
proof (cases "cache ic key")
  case None
  then have same: "ic\<lparr>cache := (cache ic)(key := None)\<rparr> = ic" by (simp add: fun_upd_idem)
  show ?thesis
    using stat nal dry None unfolding same
    unfolding ConvertWithOutputPath_body_def fmt_def [symmetric]
    by (simp add: Let_def newPath_def [symmetric] key_def [symmetric] time_Now_eq
        split: sum.splits)
next
  case (Some e)
  then have stale: "\<not> isCacheValid ic w e (ModTime st) newPath" using nohit by simp
  show ?thesis
    using stat nal dry Some stale
    unfolding ConvertWithOutputPath_body_def fmt_def [symmetric]
    by (simp add: Let_def newPath_def [symmetric] key_def [symmetric] time_Now_eq
        getConfigHash_def split: sum.splits)
qed

section \<open>The claims about results and their classification\<close>

lemma Convert_already:
  assumes stat: "os_Stat w path = Inr st"
    and al: "isAlreadyInFormat (getFileExtension env path) (strings_ToLower (unicode_lower env) format)"
  shows "Convert env ic w path format =
     (Inr \<lparr>OriginalPath = path, NewPath = [], OriginalSize = Size st, NewSize = 0,
           Duration = time_Sub (clock_at env (Suc (clock_reads w))) (clock_at env (clock_reads w)),
           Error = Some (ErrorString ''file already in target format'')\<rparr>,
      ic, w\<lparr>clock_reads := Suc (Suc (clock_reads w))\<rparr>)"
proof -
  let ?w0 = "w\<lparr>clock_reads := Suc (clock_reads w)\<rparr>"
  have "os_Stat ?w0 path = Inr st" using stat by simp
  from Convert_wrap [OF body_already [OF this al]] show ?thesis by simp
qed

lemma Convert_stat_fail:
  assumes stat: "os_Stat w path = Inl err"
  shows "Convert env ic w path format =
     (Inr \<lparr>OriginalPath = path, NewPath = [], OriginalSize = 0, NewSize = 0,
           Duration = time_Sub (clock_at env (Suc (clock_reads w))) (clock_at env (clock_reads w)),
           Error = Some (WrapError ''failed to stat file: '' err [])\<rparr>,
      ic, w\<lparr>clock_reads := Suc (Suc (clock_reads w))\<rparr>)"
proof -
  let ?w0 = "w\<lparr>clock_reads := Suc (clock_reads w)\<rparr>"
  have "os_Stat ?w0 path = Inl err" using stat by simp
  from Convert_wrap [OF body_stat_fail [OF this]] show ?thesis by simp
qed

text \<open>
  C6. For a source that exists and whose lower-cased extension is the lower-cased
  target format, or where both are among \<^verbatim>\<open>jpg\<close> and \<^verbatim>\<open>jpeg\<close>, \<open>Convert\<close>
  returns the error \<^verbatim>\<open>file already in target format\<close>; the converter is returned as
  it was, and the world differs only in the two readings of the clock: no file is
  changed and nothing is logged.
\<close>

theorem Convert_already_in_target_format:
  assumes "os_Stat w path = Inr st"
    and "getFileExtension env path = strings_ToLower (unicode_lower env) format \<or>
         (getFileExtension env path \<in> {''jpg'', ''jpeg''} \<and>
          strings_ToLower (unicode_lower env) format \<in> {''jpg'', ''jpeg''})"
  shows "Convert env ic w path format =
     (Inr \<lparr>OriginalPath = path, NewPath = [], OriginalSize = Size st, NewSize = 0,
           Duration = time_Sub (clock_at env (Suc (clock_reads w))) (clock_at env (clock_reads w)),
           Error = Some (ErrorString ''file already in target format'')\<rparr>,
      ic, w\<lparr>clock_reads := Suc (Suc (clock_reads w))\<rparr>)"
proof -
  have "isAlreadyInFormat (getFileExtension env path) (strings_ToLower (unicode_lower env) format)"
    using assms(2) by (auto simp: isAlreadyInFormat_def)
  with assms(1) show ?thesis by (rule Convert_already)
qed

theorem Convert_already_in_target_format_witness:
  "os_Stat example_world ''d/x.jpg'' = Inr \<lparr>Size = 3, ModTime = 4, IsDir = False\<rparr> \<and>
   getFileExtension example_env ''d/x.jpg'' = ''jpg'' \<and>
   strings_ToLower (unicode_lower example_env) ''JPEG'' = ''jpeg'' \<and>
   Convert example_env (NewImageConverter example_options) example_world ''d/x.jpg'' ''JPEG'' =
     (Inr \<lparr>OriginalPath = ''d/x.jpg'', NewPath = [], OriginalSize = 3, NewSize = 0,
           Duration = 1, Error = Some (ErrorString ''file already in target format'')\<rparr>,
      NewImageConverter example_options, example_world\<lparr>clock_reads := 2\<rparr>)"
proof -
  have a: "os_Stat example_world ''d/x.jpg'' = Inr \<lparr>Size = 3, ModTime = 4, IsDir = False\<rparr>"
    by (simp add: os_Stat_def example_world_def)
  have b: "getFileExtension example_env ''d/x.jpg'' = ''jpg''"
    by (simp add: getFileExtension_def filepath_Ext_def strings_ToLower_def ascii_lower_def)
  have c: "strings_ToLower (unicode_lower example_env) ''JPEG'' = ''jpeg''"
    by (simp add: strings_ToLower_def ascii_lower_def)
  have d: "getFileExtension example_env ''d/x.jpg'' = strings_ToLower (unicode_lower example_env) ''JPEG'' \<or>
         (getFileExtension example_env ''d/x.jpg'' \<in> {''jpg'', ''jpeg''} \<and>
          strings_ToLower (unicode_lower example_env) ''JPEG'' \<in> {''jpg'', ''jpeg''})"
    by (simp add: b c)
  have e: "clock_reads example_world = 0" "clock_at example_env 0 = 1000" "clock_at example_env (Suc 0) = 1001"
    by (simp_all add: example_world_def example_env_def)
  show ?thesis
    using Convert_already_in_target_format [OF a d, of "NewImageConverter example_options"] a b c
    by (simp add: e time_Sub_def)
qed

text \<open>
  C3, at a failing input. A source whose \<^verbatim>\<open>stat\<close> fails with \<^verbatim>\<open>EACCES\<close> gives a
  result whose error wraps the operating system's error and none of the sentinels,
  so \<open>AddResult\<close> counts it under \<^verbatim>\<open>Other\<close> and leaves \<^verbatim>\<open>Permission\<close> at zero.
\<close>

theorem stat_permission_failure_counted_as_other:
  "os_Stat example_world ''locked/a.png'' =
     Inl (PathError ''stat'' ''locked/a.png'' (Errno EACCES)) \<and>
   fst (Convert example_env (NewImageConverter example_options) example_world ''locked/a.png'' ''jpg'') =
     Inr \<lparr>OriginalPath = ''locked/a.png'', NewPath = [], OriginalSize = 0, NewSize = 0, Duration = 1,
          Error = Some (WrapError ''failed to stat file: ''
                    (PathError ''stat'' ''locked/a.png'' (Errno EACCES)) [])\<rparr> \<and>
   Permission (Failures (fst (AddResult NewConversionStatistics
     \<lparr>OriginalPath = ''locked/a.png'', NewPath = [], OriginalSize = 0, NewSize = 0, Duration = 1,
      Error = Some (WrapError ''failed to stat file: ''
                (PathError ''stat'' ''locked/a.png'' (Errno EACCES)) [])\<rparr>))) = 0 \<and>
   Other (Failures (fst (AddResult NewConversionStatistics
     \<lparr>OriginalPath = ''locked/a.png'', NewPath = [], OriginalSize = 0, NewSize = 0, Duration = 1,
      Error = Some (WrapError ''failed to stat file: ''
                (PathError ''stat'' ''locked/a.png'' (Errno EACCES)) [])\<rparr>))) = 1 \<and>
   FailedFiles (fst (AddResult NewConversionStatistics
     \<lparr>OriginalPath = ''locked/a.png'', NewPath = [], OriginalSize = 0, NewSize = 0, Duration = 1,
      Error = Some (WrapError ''failed to stat file: ''
                (PathError ''stat'' ''locked/a.png'' (Errno EACCES)) [])\<rparr>)) = 1"
proof -
  have a: "os_Stat example_world ''locked/a.png'' =
     Inl (PathError ''stat'' ''locked/a.png'' (Errno EACCES))"
    by (simp add: os_Stat_def example_world_def)
  have e: "clock_reads example_world = 0" "clock_at example_env 0 = 1000" "clock_at example_env (Suc 0) = 1001"
    by (simp_all add: example_world_def example_env_def)
  show ?thesis
    using Convert_stat_fail [OF a, of example_env "NewImageConverter example_options" "''jpg''"] a
    by (simp add: e time_Sub_def AddResult_def NewConversionStatistics_def Let_def)
qed


text \<open>
  C4, as amended. For a result without an error, \<open>AddResult\<close> counts it as skipped
  exactly when its original path is empty and its new size is zero, and otherwise as
  converted, adding its two sizes to the totals (in 64-bit arithmetic). A file that
  is already in the target format is not such a result: \<open>Convert\<close> gives it an
  error, and \<open>AddResult\<close> counts it as failed, under \<^verbatim>\<open>Other\<close>.
\<close>

theorem AddResult_skipped_or_converted:
  "(Error r = None \<longrightarrow>
      SkippedFiles (fst (AddResult cs r)) =
        (if OriginalPath r = [] \<and> NewSize r = 0 then SkippedFiles cs + 1 else SkippedFiles cs) \<and>
      ConvertedFiles (fst (AddResult cs r)) =
        (if OriginalPath r = [] \<and> NewSize r = 0 then ConvertedFiles cs else ConvertedFiles cs + 1) \<and>
      TotalSizeBefore (fst (AddResult cs r)) =
        (if OriginalPath r = [] \<and> NewSize r = 0 then TotalSizeBefore cs
         else TotalSizeBefore cs + OriginalSize r) \<and>
      TotalSizeAfter (fst (AddResult cs r)) =
        (if OriginalPath r = [] \<and> NewSize r = 0 then TotalSizeAfter cs
         else TotalSizeAfter cs + NewSize r) \<and>
      FailedFiles (fst (AddResult cs r)) = FailedFiles cs \<and>
      TotalFiles (fst (AddResult cs r)) = TotalFiles cs + 1) \<and>
   (os_Stat w path = Inr st \<and>
    isAlreadyInFormat (getFileExtension env path) (strings_ToLower (unicode_lower env) format) \<longrightarrow>
      (\<exists>r' ic' w'. Convert env ic w path format = (Inr r', ic', w') \<and>
         Error r' = Some (ErrorString ''file already in target format'') \<and>
         SkippedFiles (fst (AddResult cs r')) = SkippedFiles cs \<and>
         ConvertedFiles (fst (AddResult cs r')) = ConvertedFiles cs \<and>
         FailedFiles (fst (AddResult cs r')) = FailedFiles cs + 1 \<and>
         Other (Failures (fst (AddResult cs r'))) = Other (Failures cs) + 1))"
proof (intro conjI impI)
  assume "os_Stat w path = Inr st \<and>
    isAlreadyInFormat (getFileExtension env path) (strings_ToLower (unicode_lower env) format)"
  then have c: "Convert env ic w path format =
     (Inr \<lparr>OriginalPath = path, NewPath = [], OriginalSize = Size st, NewSize = 0,
           Duration = time_Sub (clock_at env (Suc (clock_reads w))) (clock_at env (clock_reads w)),
           Error = Some (ErrorString ''file already in target format'')\<rparr>,
      ic, w\<lparr>clock_reads := Suc (Suc (clock_reads w))\<rparr>)"
    using Convert_already by blast
  show "\<exists>r' ic' w'. Convert env ic w path format = (Inr r', ic', w') \<and>
         Error r' = Some (ErrorString ''file already in target format'') \<and>
         SkippedFiles (fst (AddResult cs r')) = SkippedFiles cs \<and>
         ConvertedFiles (fst (AddResult cs r')) = ConvertedFiles cs \<and>
         FailedFiles (fst (AddResult cs r')) = FailedFiles cs + 1 \<and>
         Other (Failures (fst (AddResult cs r'))) = Other (Failures cs) + 1"
    unfolding c by (simp add: AddResult_error)
qed (simp_all add: AddResult_no_error)

theorem AddResult_skipped_or_converted_witness:
  "Error \<lparr>OriginalPath = [], NewPath = [], OriginalSize = 1000, NewSize = 500,
          Duration = 100000000, Error = None\<rparr> = None \<and>
   ConvertedFiles (fst (AddResult NewConversionStatistics
     \<lparr>OriginalPath = [], NewPath = [], OriginalSize = 1000, NewSize = 500,
      Duration = 100000000, Error = None\<rparr>)) = 1 \<and>
   SkippedFiles (fst (AddResult NewConversionStatistics
     \<lparr>OriginalPath = [], NewPath = [], OriginalSize = 1000, NewSize = 500,
      Duration = 100000000, Error = None\<rparr>)) = 0 \<and>
   TotalSizeBefore (fst (AddResult NewConversionStatistics
     \<lparr>OriginalPath = [], NewPath = [], OriginalSize = 1000, NewSize = 500,
      Duration = 100000000, Error = None\<rparr>)) = 1000 \<and>
   TotalSizeAfter (fst (AddResult NewConversionStatistics
     \<lparr>OriginalPath = [], NewPath = [], OriginalSize = 1000, NewSize = 500,
      Duration = 100000000, Error = None\<rparr>)) = 500 \<and>
   os_Stat example_world ''d/x.jpg'' = Inr \<lparr>Size = 3, ModTime = 4, IsDir = False\<rparr> \<and>
   isAlreadyInFormat (getFileExtension example_env ''d/x.jpg'')
     (strings_ToLower (unicode_lower example_env) ''jpeg'') \<and>
   (\<exists>r' ic' w'.
      Convert example_env (NewImageConverter example_options) example_world ''d/x.jpg'' ''jpeg'' =
        (Inr r', ic', w') \<and>
      Error r' = Some (ErrorString ''file already in target format'') \<and>
      SkippedFiles (fst (AddResult NewConversionStatistics r')) = 0 \<and>
      ConvertedFiles (fst (AddResult NewConversionStatistics r')) = 0 \<and>
      FailedFiles (fst (AddResult NewConversionStatistics r')) = 1 \<and>
      Other (Failures (fst (AddResult NewConversionStatistics r'))) = 1)"
proof -
  have a: "os_Stat example_world ''d/x.jpg'' = Inr \<lparr>Size = 3, ModTime = 4, IsDir = False\<rparr>"
    by (simp add: os_Stat_def example_world_def)
  have b: "isAlreadyInFormat (getFileExtension example_env ''d/x.jpg'')
     (strings_ToLower (unicode_lower example_env) ''jpeg'')"
    by (simp add: isAlreadyInFormat_def getFileExtension_def filepath_Ext_def strings_ToLower_def
        ascii_lower_def)
  have z: "SkippedFiles NewConversionStatistics = 0" "FailedFiles NewConversionStatistics = 0"
    "ConvertedFiles NewConversionStatistics = 0" "TotalSizeBefore NewConversionStatistics = 0"
    "TotalSizeAfter NewConversionStatistics = 0" "Other (Failures NewConversionStatistics) = 0"
    by (simp_all add: NewConversionStatistics_def)
  show ?thesis
    using AddResult_skipped_or_converted [of
        "\<lparr>OriginalPath = [], NewPath = [], OriginalSize = 1000, NewSize = 500,
          Duration = 100000000, Error = None\<rparr>"
        NewConversionStatistics example_world "''d/x.jpg''"
        "\<lparr>Size = 3, ModTime = 4, IsDir = False\<rparr>" example_env "''jpeg''"
        "NewImageConverter example_options"] a b
    by (simp add: z)
qed

text \<open>
  C4 as stated fails on the case it names: the result of \<open>Convert\<close> for
  \<^verbatim>\<open>d/x.jpg\<close> and the target \<^verbatim>\<open>jpeg\<close> is counted as failed, not as skipped.
\<close>

theorem AddResult_skipped_or_converted_counterexample:
  "fst (Convert example_env (NewImageConverter example_options) example_world ''d/x.jpg'' ''jpeg'') =
     Inr \<lparr>OriginalPath = ''d/x.jpg'', NewPath = [], OriginalSize = 3, NewSize = 0, Duration = 1,
          Error = Some (ErrorString ''file already in target format'')\<rparr> \<and>
   SkippedFiles (fst (AddResult NewConversionStatistics
     \<lparr>OriginalPath = ''d/x.jpg'', NewPath = [], OriginalSize = 3, NewSize = 0, Duration = 1,
      Error = Some (ErrorString ''file already in target format'')\<rparr>)) = 0 \<and>
   FailedFiles (fst (AddResult NewConversionStatistics
     \<lparr>OriginalPath = ''d/x.jpg'', NewPath = [], OriginalSize = 3, NewSize = 0, Duration = 1,
      Error = Some (ErrorString ''file already in target format'')\<rparr>)) = 1"
proof -
  have a: "os_Stat example_world ''d/x.jpg'' = Inr \<lparr>Size = 3, ModTime = 4, IsDir = False\<rparr>"
    by (simp add: os_Stat_def example_world_def)
  have b: "isAlreadyInFormat (getFileExtension example_env ''d/x.jpg'')
     (strings_ToLower (unicode_lower example_env) ''jpeg'')"
    by (simp add: isAlreadyInFormat_def getFileExtension_def filepath_Ext_def strings_ToLower_def
        ascii_lower_def)
  have e: "clock_reads example_world = 0" "clock_at example_env 0 = 1000" "clock_at example_env (Suc 0) = 1001"
    by (simp_all add: example_world_def example_env_def)
  show ?thesis
    using Convert_already [OF a b, of "NewImageConverter example_options"]
    by (simp add: e time_Sub_def AddResult_def NewConversionStatistics_def Let_def)
qed

section \<open>The dry run\<close>

text \<open>
  C2, as amended. With \<^verbatim>\<open>DryRun\<close> set, \<open>Convert\<close> of a file that exists and is not
  already in the target format returns a result without an error, changes no file and
  logs nothing (no write, no removal, no call of the codec). It may change the cache,
  at the key of this job only: an entry that is no longer valid is evicted, and when the
  output path exists on disk an entry with its size is stored. A valid entry is left as
  it is.
\<close>

theorem Convert_dry_run:
  fixes env ic w path format
  defines "fmt \<equiv> strings_ToLower (unicode_lower env) format"
  defines "newPath \<equiv> strings_TrimSuffix path (filepath_Ext path) @ ''.'' @ fmt"
  defines "key \<equiv> getCacheKey env ic path fmt"
  defines "fresh \<equiv>
     (case os_Stat w newPath of
        Inr newStat \<Rightarrow>
          Some \<lparr>outputPath = newPath, outputSize = Size newStat,
                lastModified = clock_at env (Suc (clock_reads w)), configHash = getConfigHash ic\<rparr>
      | Inl err \<Rightarrow> None)"
  assumes stat: "os_Stat w path = Inr st"
    and nal: "\<not> isAlreadyInFormat (getFileExtension env path) fmt"
    and dry: "DryRun (options ic)"
  shows "\<exists>r ic' w'. Convert env ic w path format = (Inr r, ic', w') \<and> Error r = None \<and>
           files w' = files w \<and> effects w' = effects w \<and>
           options ic' = options ic \<and> bufPool ic' = bufPool ic \<and>
           (\<forall>k. k \<noteq> key \<longrightarrow> cache ic' k = cache ic k) \<and>
           cache ic' key =
             (case cache ic key of
                Some e \<Rightarrow> if isCacheValid ic w e (ModTime st) newPath then Some e else fresh
              | None \<Rightarrow> fresh)"
proof -
  let ?w0 = "w\<lparr>clock_reads := Suc (clock_reads w)\<rparr>"
  have stat0: "os_Stat ?w0 path = Inr st" using stat by simp
  show ?thesis
  proof (cases "\<exists>e. cache ic key = Some e \<and> isCacheValid ic w e (ModTime st) newPath")
    case True
    then obtain e where e: "cache ic key = Some e" and v: "isCacheValid ic w e (ModTime st) newPath"
      by blast
    have "ConvertWithOutputPath_body env ic ?w0 path format [] =
       (Inr \<lparr>OriginalPath = path, NewPath = newPath, OriginalSize = Size st,
             NewSize = outputSize e, Duration = 0, Error = None\<rparr>, ic, ?w0)"
      using body_cache_hit [of ?w0 path st env format ic e "[]"] stat0 nal e v
      by (simp add: fmt_def newPath_def key_def)
    from Convert_wrap [OF this] show ?thesis using e v by simp
  next
    case False
    then have nohit: "\<forall>e. cache ic key = Some e \<longrightarrow> \<not> isCacheValid ic ?w0 e (ModTime st) newPath"
      by simp
    note body = body_dry_run [of ?w0 path st env format ic "[]"]
    show ?thesis
    proof (cases "os_Stat w newPath")
      case (Inl err)
      then have "ConvertWithOutputPath_body env ic ?w0 path format [] =
         (Inr \<lparr>OriginalPath = path, NewPath = newPath, OriginalSize = Size st,
               NewSize = 0, Duration = 0, Error = None\<rparr>,
          ic\<lparr>cache := (cache ic)(key := None)\<rparr>, ?w0)"
        using body stat0 nal dry nohit by (simp add: fmt_def newPath_def key_def)
      from Convert_wrap [OF this] show ?thesis
        using False Inl by (auto simp: fresh_def split: option.splits)
    next
      case (Inr newStat)
      then have "ConvertWithOutputPath_body env ic ?w0 path format [] =
         (Inr \<lparr>OriginalPath = path, NewPath = newPath, OriginalSize = Size st,
               NewSize = Size newStat, Duration = 0, Error = None\<rparr>,
          ic\<lparr>cache := (cache ic)(key \<mapsto>
             \<lparr>outputPath = newPath, outputSize = Size newStat,
              lastModified = clock_at env (Suc (clock_reads w)), configHash = getConfigHash ic\<rparr>)\<rparr>,
          w\<lparr>clock_reads := Suc (Suc (clock_reads w))\<rparr>)"
        using body stat0 nal dry nohit by (simp add: fmt_def newPath_def key_def)
      from Convert_wrap [OF this] show ?thesis
        using False Inr by (auto simp: fresh_def split: option.splits)
    qed
  qed
qed


theorem Convert_dry_run_witness:
  "os_Stat example_world ''d/a.png'' = Inr \<lparr>Size = 6, ModTime = 5, IsDir = False\<rparr> \<and>
   \<not> isAlreadyInFormat (getFileExtension example_env ''d/a.png'')
       (strings_ToLower (unicode_lower example_env) ''jpg'') \<and>
   DryRun (options (NewImageConverter (example_options\<lparr>DryRun := True\<rparr>))) \<and>
   (\<exists>r ic' w'.
      Convert example_env (NewImageConverter (example_options\<lparr>DryRun := True\<rparr>)) example_world
        ''d/a.png'' ''jpg'' = (Inr r, ic', w') \<and>
      Error r = None \<and> files w' = files example_world \<and> effects w' = effects example_world)"
proof -
  have a: "os_Stat example_world ''d/a.png'' = Inr \<lparr>Size = 6, ModTime = 5, IsDir = False\<rparr>"
    by (simp add: os_Stat_def example_world_def)
  have b: "\<not> isAlreadyInFormat (getFileExtension example_env ''d/a.png'')
       (strings_ToLower (unicode_lower example_env) ''jpg'')"
    by (simp add: isAlreadyInFormat_def getFileExtension_def filepath_Ext_def strings_ToLower_def
        ascii_lower_def)
  have c: "DryRun (options (NewImageConverter (example_options\<lparr>DryRun := True\<rparr>)))"
    by (simp add: NewImageConverter_def)
  from Convert_dry_run [OF a b c] show ?thesis using a b c by blast
qed

text \<open>
  C2 as stated fails on the cache: with \<^verbatim>\<open>DryRun\<close> set, an empty cache and the
  output \<^verbatim>\<open>d/a.jpg\<close> on disk, \<open>Convert\<close> of \<^verbatim>\<open>d/a.png\<close> stores a cache entry.
\<close>

theorem Convert_dry_run_counterexample:
  "DryRun (options (NewImageConverter (example_options\<lparr>DryRun := True\<rparr>))) \<and>
   os_Stat example_world ''d/a.png'' = Inr \<lparr>Size = 6, ModTime = 5, IsDir = False\<rparr> \<and>
   \<not> isAlreadyInFormat (getFileExtension example_env ''d/a.png'')
       (strings_ToLower (unicode_lower example_env) ''jpg'') \<and>
   cache (NewImageConverter (example_options\<lparr>DryRun := True\<rparr>)) ''d/a.pngjpg80_500'' = None \<and>
   cache (fst (snd (Convert example_env (NewImageConverter (example_options\<lparr>DryRun := True\<rparr>))
                      example_world ''d/a.png'' ''jpg''))) ''d/a.pngjpg80_500'' =
     Some \<lparr>outputPath = ''d/a.jpg'', outputSize = 3, lastModified = 1001, configHash = ''80_500''\<rparr>"
  by (simp add: example_env_def example_options_def example_world_def NewImageConverter_def
      newBufferPool_def Convert_def ConvertWithOutputPath_def ConvertWithOutputPath_body_def
      time_Now_def time_Since_def os_Stat_def getFileExtension_def filepath_Ext_def
      strings_ToLower_def ascii_lower_def isAlreadyInFormat_def strings_TrimSuffix_def
      strings_HasSuffix_def getCacheKey_def getConfigHash_def strconv_FormatUint.simps Let_def)

section \<open>The derived figures\<close>

lemma sint_below_2p63: "uint (a :: 64 word) < 2 ^ 63 \<Longrightarrow> sint a = uint a"
proof -
  assume "uint a < 2 ^ 63"
  moreover have "- (2 ^ 63) \<le> uint a" by (rule order_trans [of _ 0]) simp_all
  ultimately have "signed_take_bit 63 (uint a) = uint a"
    by (intro signed_take_bit_int_eq_self)
  then show ?thesis by (simp add: sint_uint)
qed

lemma Calculate_SpaceSaved_signed:
  assumes "0 < TotalSizeBefore cs"
    and b: "uint (TotalSizeBefore cs) < 2 ^ 63" and a: "uint (TotalSizeAfter cs) < 2 ^ 63"
  shows "sint (SpaceSaved (Calculate cs)) = uint (TotalSizeBefore cs) - uint (TotalSizeAfter cs)"
proof -
  let ?d = "uint (TotalSizeBefore cs) - uint (TotalSizeAfter cs)"
  have "uint (TotalSizeBefore cs) < 9223372036854775808"
    "uint (TotalSizeAfter cs) < 9223372036854775808"
    using a b by simp_all
  moreover have "0 \<le> uint (TotalSizeBefore cs)" "0 \<le> uint (TotalSizeAfter cs)"
    by (rule uint_ge_0)+
  ultimately have "- 9223372036854775808 \<le> ?d" "?d < 9223372036854775808" by linarith+
  then have "- (2 ^ 63) \<le> ?d" "?d < 2 ^ 63" by simp_all
  then have "signed_take_bit 63 ?d = ?d" by (rule signed_take_bit_int_eq_self)
  then show ?thesis
    using assms(1) by (simp add: Calculate_fields sint_word_diff sint_below_2p63 [OF a] sint_below_2p63 [OF b])
qed

text \<open>
  C7, as amended. \<open>Calculate\<close> sets \<^verbatim>\<open>AverageDuration\<close> to \<^verbatim>\<open>TotalDuration\<close> divided
  by \<^verbatim>\<open>TotalFiles\<close> (the signed quotient, truncated) when \<^verbatim>\<open>TotalFiles\<close> is
  positive, and sets \<^verbatim>\<open>SpaceSaved\<close> to \<^verbatim>\<open>TotalSizeBefore - TotalSizeAfter\<close> and
  \<^verbatim>\<open>CompressionRatio\<close> to the \<^verbatim>\<open>float64\<close> quotient of \<^verbatim>\<open>TotalSizeAfter\<close> by
  \<^verbatim>\<open>TotalSizeBefore\<close> when \<^verbatim>\<open>TotalSizeBefore\<close> is positive; otherwise it leaves the
  field as it was. After one error-free result with sizes 1000 and 500 has been added
  to fresh statistics, the three figures are 500, one half and one converted file.
\<close>

theorem Calculate_figures:
  "AverageDuration (Calculate cs) =
     (if 0 < TotalFiles cs then int64_div (TotalDuration cs) (ucast (TotalFiles cs))
      else AverageDuration cs) \<and>
   (0 < TotalFiles cs \<longrightarrow>
      sint (AverageDuration (Calculate cs)) = sint (TotalDuration cs) sdiv uint (TotalFiles cs)) \<and>
   SpaceSaved (Calculate cs) =
     (if 0 < TotalSizeBefore cs then TotalSizeBefore cs - TotalSizeAfter cs else SpaceSaved cs) \<and>
   (0 < TotalSizeBefore cs \<and> uint (TotalSizeBefore cs) < 2 ^ 63 \<and>
    uint (TotalSizeAfter cs) < 2 ^ 63 \<longrightarrow>
      sint (SpaceSaved (Calculate cs)) = uint (TotalSizeBefore cs) - uint (TotalSizeAfter cs)) \<and>
   CompressionRatio (Calculate cs) =
     (if 0 < TotalSizeBefore cs
      then float64_div (float64_of_nat (unat (TotalSizeAfter cs)))
                       (float64_of_nat (unat (TotalSizeBefore cs)))
      else CompressionRatio cs) \<and>
   (Error r = None \<and> OriginalSize r = 1000 \<and> NewSize r = 500 \<longrightarrow>
      SpaceSaved (Calculate (fst (AddResult NewConversionStatistics r))) = 500 \<and>
      CompressionRatio (Calculate (fst (AddResult NewConversionStatistics r))) = 1 / 2 \<and>
      ConvertedFiles (Calculate (fst (AddResult NewConversionStatistics r))) = 1)"
proof -
  have ex: "SpaceSaved (Calculate (fst (AddResult NewConversionStatistics r))) = 500 \<and>
      CompressionRatio (Calculate (fst (AddResult NewConversionStatistics r))) = 1 / 2 \<and>
      ConvertedFiles (Calculate (fst (AddResult NewConversionStatistics r))) = 1"
    if r: "Error r = None \<and> OriginalSize r = 1000 \<and> NewSize r = 500"
  proof -
    let ?cs = "fst (AddResult NewConversionStatistics r)"
    have z: "ConvertedFiles NewConversionStatistics = 0" "TotalSizeBefore NewConversionStatistics = 0"
      "TotalSizeAfter NewConversionStatistics = 0"
      by (simp_all add: NewConversionStatistics_def)
    have f: "ConvertedFiles ?cs = 1" "TotalSizeBefore ?cs = 1000" "TotalSizeAfter ?cs = 500"
      using r by (simp_all add: AddResult_no_error z)
    show ?thesis by (simp add: Calculate_fields f float64_div_500_1000)
  qed
  have avg: "sint (AverageDuration (Calculate cs)) = sint (TotalDuration cs) sdiv uint (TotalFiles cs)"
    if "0 < TotalFiles cs"
    using that by (rule Calculate_AverageDuration)
  have sav: "sint (SpaceSaved (Calculate cs)) = uint (TotalSizeBefore cs) - uint (TotalSizeAfter cs)"
    if "0 < TotalSizeBefore cs \<and> uint (TotalSizeBefore cs) < 2 ^ 63 \<and>
        uint (TotalSizeAfter cs) < 2 ^ 63"
    using that Calculate_SpaceSaved_signed by blast
  show ?thesis
    using ex avg sav Calculate_fields(1) [of cs] Calculate_fields(2) [of cs]
      Calculate_fields(3) [of cs]
    by blast
qed

theorem Calculate_figures_witness:
  "(0::uint32) < 4 \<and>
   sint (AverageDuration (Calculate (NewConversionStatistics\<lparr>TotalFiles := 4, TotalDuration := - 10,
           TotalSizeBefore := 1000, TotalSizeAfter := 1200\<rparr>))) = - 2 \<and>
   sint (SpaceSaved (Calculate (NewConversionStatistics\<lparr>TotalFiles := 4, TotalDuration := - 10,
           TotalSizeBefore := 1000, TotalSizeAfter := 1200\<rparr>))) = - 200 \<and>
   Error \<lparr>OriginalPath = [], NewPath = [], OriginalSize = 1000, NewSize = 500,
          Duration = 100000000, Error = None\<rparr> = None \<and>
   SpaceSaved (Calculate (fst (AddResult NewConversionStatistics
     \<lparr>OriginalPath = [], NewPath = [], OriginalSize = 1000, NewSize = 500,
      Duration = 100000000, Error = None\<rparr>))) = 500 \<and>
   CompressionRatio (Calculate (fst (AddResult NewConversionStatistics
     \<lparr>OriginalPath = [], NewPath = [], OriginalSize = 1000, NewSize = 500,
      Duration = 100000000, Error = None\<rparr>))) = 1 / 2 \<and>
   ConvertedFiles (Calculate (fst (AddResult NewConversionStatistics
     \<lparr>OriginalPath = [], NewPath = [], OriginalSize = 1000, NewSize = 500,
      Duration = 100000000, Error = None\<rparr>))) = 1"
proof -
  let ?cs = "NewConversionStatistics\<lparr>TotalFiles := 4, TotalDuration := - 10,
           TotalSizeBefore := 1000, TotalSizeAfter := 1200\<rparr>"
  let ?r = "\<lparr>OriginalPath = [], NewPath = [], OriginalSize = 1000, NewSize = 500,
        Duration = 100000000, Error = None\<rparr>"
  note T = Calculate_figures [of ?cs ?r]
  have tf: "TotalFiles ?cs = 4" "TotalDuration ?cs = - 10" "TotalSizeBefore ?cs = 1000"
    "TotalSizeAfter ?cs = 1200"
    by simp_all
  have "sint (AverageDuration (Calculate ?cs)) = sint (TotalDuration ?cs) sdiv uint (TotalFiles ?cs)"
    by (rule T [THEN conjunct2, THEN conjunct1, THEN mp]) (simp add: tf)
  then have a: "sint (AverageDuration (Calculate ?cs)) = - 2"
    by (simp only: tf) (simp add: signed_divide_int_def)
  have "sint (SpaceSaved (Calculate ?cs)) = uint (TotalSizeBefore ?cs) - uint (TotalSizeAfter ?cs)"
    by (rule T [THEN conjunct2, THEN conjunct2, THEN conjunct2, THEN conjunct1, THEN mp])
      (simp add: tf)
  then have b: "sint (SpaceSaved (Calculate ?cs)) = - 200"
    by (simp only: tf) simp
  have c: "SpaceSaved (Calculate (fst (AddResult NewConversionStatistics ?r))) = 500 \<and>
      CompressionRatio (Calculate (fst (AddResult NewConversionStatistics ?r))) = 1 / 2 \<and>
      ConvertedFiles (Calculate (fst (AddResult NewConversionStatistics ?r))) = 1"
    by (rule T [THEN conjunct2, THEN conjunct2, THEN conjunct2, THEN conjunct2, THEN conjunct2,
          THEN mp]) simp
  show ?thesis using a b c by simp
qed

text \<open>
  C7 as stated fails where the guard is closed: with nothing counted before and 500
  bytes after (an empty source whose output already exists), \<^verbatim>\<open>SpaceSaved\<close> stays
  zero and is not the difference of the totals.
\<close>

theorem Calculate_figures_counterexample:
  "TotalSizeBefore (fst (AddResult NewConversionStatistics
     \<lparr>OriginalPath = ''d/e.png'', NewPath = ''d/e.jpg'', OriginalSize = 0, NewSize = 500,
      Duration = 1, Error = None\<rparr>)) = 0 \<and>
   TotalSizeAfter (fst (AddResult NewConversionStatistics
     \<lparr>OriginalPath = ''d/e.png'', NewPath = ''d/e.jpg'', OriginalSize = 0, NewSize = 500,
      Duration = 1, Error = None\<rparr>)) = 500 \<and>
   SpaceSaved (Calculate (fst (AddResult NewConversionStatistics
     \<lparr>OriginalPath = ''d/e.png'', NewPath = ''d/e.jpg'', OriginalSize = 0, NewSize = 500,
      Duration = 1, Error = None\<rparr>))) = 0 \<and>
   (0 :: uint64) - 500 \<noteq> 0"
  by (simp add: AddResult_def Calculate_def NewConversionStatistics_def Let_def)

section \<open>Downscaling\<close>

lemma unat_uint16_lt_2p53: "unat (x :: uint16) < 2 ^ 53"
proof -
  have "unat x < 2 ^ 16" using unsigned_less [of x, where ?'a = nat] by simp
  then show ?thesis by simp
qed

lemma convertImage_scale_eq:
  "convertImage_scale ic img =
     (if unat (MaxDimension (options ic)) < max (Width img) (Height img)
      then float64_div (unat (MaxDimension (options ic)))
             (float64_of_nat (max (Width img) (Height img)))
      else 1)"
proof -
  let ?M = "unat (MaxDimension (options ic))"
  have M: "?M < 2 ^ 53" by (rule unat_uint16_lt_2p53)
  have ex: "float64_of_nat ?M = ?M" using M by (rule float64_of_nat_exact)
  have lt: "\<And>n. ?M < float64_of_nat n \<longleftrightarrow> ?M < n" using M by (rule float64_of_nat_less_iff)
  show ?thesis
    by (cases "Height img < Width img")
      (simp_all add: convertImage_scale_def Let_def ex lt max_def)
qed

lemma convertImage_scale_bounds:
  assumes "0 < unat (MaxDimension (options ic))"
    and "unat (MaxDimension (options ic)) < max (Width img) (Height img)"
  shows "0 < convertImage_scale ic img" and "convertImage_scale ic img < 1"
proof -
  let ?M = "unat (MaxDimension (options ic))" and ?L = "max (Width img) (Height img)"
  have M: "?M < 2 ^ 53" by (rule unat_uint16_lt_2p53)
  have "?M < float64_of_nat ?L" using assms(2) float64_of_nat_less_iff [OF M] by simp
  from float64_div_bounds [OF assms(1) this M] assms(2)
  show "0 < convertImage_scale ic img" and "convertImage_scale ic img < 1"
    by (simp_all add: convertImage_scale_eq)
qed

lemma os_WriteFile_effects:
  "os_WriteFile env w p d = (r, w') \<Longrightarrow>
     effects w' = effects w \<or> effects w' = effects w @ [FsWrite p d]"
  by (auto simp: os_WriteFile_def time_Now_def split: if_splits node.splits)

lemma convertImage_effects:
  assumes f: "files w inputPath = Regular d t" and dec: "vips_decode env d = Inr img"
    and run: "convertImage env ic w inputPath outPath format = (r, w')"
  shows "\<exists>rest. effects w' =
           effects w @ CodecLoad inputPath #
             (if 0 < MaxDimension (options ic) \<and> convertImage_scale ic img < 1
              then [CodecResize (convertImage_scale ic img)] else []) @ rest \<and>
           (\<forall>s. CodecResize s \<notin> set rest)"
proof -
  define w1 where "w1 = w\<lparr>effects := effects w @ [CodecLoad inputPath]\<rparr>"
  have load: "vips_NewImageFromFile env w inputPath = (Inr img, w1)"
    using f dec by (simp add: vips_NewImageFromFile_def w1_def)
  define pre where "pre = effects w @ CodecLoad inputPath #
             (if 0 < MaxDimension (options ic) \<and> convertImage_scale ic img < 1
              then [CodecResize (convertImage_scale ic img)] else [])"
  obtain ri w2 where rs: "(if 0 < MaxDimension (options ic) \<and> convertImage_scale ic img < 1
                 then vips_Resize env w1 img (convertImage_scale ic img) KernelLanczos3
                 else (Inr img, w1)) = (ri, w2)"
    by (cases "(if 0 < MaxDimension (options ic) \<and> convertImage_scale ic img < 1
                 then vips_Resize env w1 img (convertImage_scale ic img) KernelLanczos3
                 else (Inr img, w1))") blast
  have e2: "effects w2 = pre"
    using rs by (auto simp: vips_Resize_def w1_def pre_def split: if_splits)
  show ?thesis
  proof (cases ri)
    case (Inl msg)
    then have "w' = w2" using run load rs by (simp add: convertImage_def)
    then have "effects w' = pre @ []" using e2 by simp
    then show ?thesis unfolding pre_def by (intro exI [of _ "[]"]) simp
  next
    case (Inr img')
    define params where "params = getExportParams env ic format"
    define w3 where "w3 = w2\<lparr>effects := effects w2 @ [CodecExport params]\<rparr>"
    have ex: "vips_Export env w2 img' params = (vips_encode env img' params, w3)"
      by (simp add: vips_Export_def w3_def)
    show ?thesis
    proof (cases "vips_encode env img' params")
      case (Inl msg)
      then have "w' = w3" using run load rs Inr ex by (simp add: convertImage_def params_def Let_def)
      then have "effects w' = pre @ [CodecExport params]" using e2 by (simp add: w3_def)
      then show ?thesis unfolding pre_def by (intro exI [of _ "[CodecExport params]"]) simp
    next
      case enc: (Inr bytes)
      obtain rw w4 where wr: "os_WriteFile env w3 outPath bytes = (rw, w4)"
        by (cases "os_WriteFile env w3 outPath bytes") blast
      have "w' = w4" using run load rs Inr ex enc wr
        by (cases rw) (simp_all add: convertImage_def params_def Let_def)
      moreover have "effects w4 = pre @ [CodecExport params] \<or>
                     effects w4 = pre @ [CodecExport params, FsWrite outPath bytes]"
        using os_WriteFile_effects [OF wr] e2 by (simp add: w3_def)
      ultimately have "effects w' = pre @ [CodecExport params] \<or>
                     effects w' = pre @ [CodecExport params, FsWrite outPath bytes]" by simp
      then show ?thesis
      proof
        assume "effects w' = pre @ [CodecExport params]"
        then show ?thesis unfolding pre_def by (intro exI [of _ "[CodecExport params]"]) simp
      next
        assume "effects w' = pre @ [CodecExport params, FsWrite outPath bytes]"
        then show ?thesis unfolding pre_def
          by (intro exI [of _ "[CodecExport params, FsWrite outPath bytes]"]) simp
      qed
    qed
  qed
qed


lemma convertImage_written:
  assumes f: "files w inputPath = Regular d t" and dec: "vips_decode env d = Inr img"
    and run: "convertImage env ic w inputPath outPath format = (None, w')"
  shows "\<exists>scaled bytes t'.
           (if 0 < MaxDimension (options ic) \<and> convertImage_scale ic img < 1
            then vips_resize env img (convertImage_scale ic img) KernelLanczos3 = Inr scaled
            else scaled = img) \<and>
           vips_encode env scaled (getExportParams env ic format) = Inr bytes \<and>
           files w' outPath = Regular bytes t'"
proof -
  define w1 where "w1 = w\<lparr>effects := effects w @ [CodecLoad inputPath]\<rparr>"
  have load: "vips_NewImageFromFile env w inputPath = (Inr img, w1)"
    using f dec by (simp add: vips_NewImageFromFile_def w1_def)
  obtain ri w2 where rs: "(if 0 < MaxDimension (options ic) \<and> convertImage_scale ic img < 1
                 then vips_Resize env w1 img (convertImage_scale ic img) KernelLanczos3
                 else (Inr img, w1)) = (ri, w2)"
    by (cases "(if 0 < MaxDimension (options ic) \<and> convertImage_scale ic img < 1
                 then vips_Resize env w1 img (convertImage_scale ic img) KernelLanczos3
                 else (Inr img, w1))") blast
  have "ri \<noteq> Inl msg" for msg
    using run load rs by (auto simp: convertImage_def)
  then obtain scaled where ri: "ri = Inr scaled" by (cases ri) blast+
  have sc: "if 0 < MaxDimension (options ic) \<and> convertImage_scale ic img < 1
            then vips_resize env img (convertImage_scale ic img) KernelLanczos3 = Inr scaled
            else scaled = img"
    using rs ri by (auto simp: vips_Resize_def split: if_splits)
  obtain rx w3 where ex: "vips_Export env w2 scaled (getExportParams env ic format) = (rx, w3)"
    by (cases "vips_Export env w2 scaled (getExportParams env ic format)") blast
  have run1: "(case rx of
       Inl msg \<Rightarrow> (Some (WrapError ''failed to export image: '' (ErrorString msg) []), w3)
     | Inr imgBytes \<Rightarrow>
         (case os_WriteFile env w3 outPath imgBytes of
            (Some err, w4) \<Rightarrow> (Some (WrapError ''failed to write image to file: '' err []), w4)
          | (None, w4) \<Rightarrow> (None, w4))) = (None, w')"
    using run load rs ri ex by (simp add: convertImage_def Let_def)
  then obtain bytes where rx: "rx = Inr bytes" by (cases rx) simp_all
  have enc: "vips_encode env scaled (getExportParams env ic format) = Inr bytes"
    using ex rx by (simp add: vips_Export_def)
  have "os_WriteFile env w3 outPath bytes = (None, w')"
    using run1 rx by (simp split: prod.splits option.splits)
  from os_WriteFile_success [OF this] obtain t' where "files w' outPath = Regular bytes t'"
    by blast
  with sc enc show ?thesis by blast
qed

text \<open>
  C8. With \<open>M\<close> the configured maximum dimension and \<open>L\<close> the longer side of the
  image, the scale that \<open>convertImage\<close> computes is the \<^verbatim>\<open>float64\<close> quotient of \<open>M\<close>
  by \<open>L\<close> when \<open>L\<close> exceeds \<open>M\<close>, and 1 otherwise; it is never above 1, and it is
  strictly between 0 and 1 when \<open>M\<close> is positive and \<open>L\<close> exceeds it. Accordingly a
  run of \<open>convertImage\<close> on a decodable file calls the codec's resize exactly once,
  with that one factor, when \<open>M\<close> is positive and \<open>L\<close> exceeds it, and never
  otherwise; and when the run succeeds, the bytes it leaves at the output path are
  the encoding of the image that this resize returned, or of the decoded image
  itself when there was no resize. (The conversion of \<open>L\<close> to \<^verbatim>\<open>float64\<close> is
  exact below \<open>2 ^ 53\<close>.)
\<close>

theorem convertImage_downscale:
  fixes ic img
  defines "M \<equiv> unat (MaxDimension (options ic))"
  defines "L \<equiv> max (Width img) (Height img)"
  shows "convertImage_scale ic img = (if M < L then float64_div M (float64_of_nat L) else 1) \<and>
         convertImage_scale ic img \<le> 1 \<and>
         (0 < M \<and> M < L \<longrightarrow> 0 < convertImage_scale ic img \<and> convertImage_scale ic img < 1) \<and>
         (L < 2 ^ 53 \<longrightarrow> float64_of_nat L = L) \<and>
         (files w inputPath = Regular d t \<and> vips_decode env d = Inr img \<and>
          convertImage env ic w inputPath outPath format = (r, w') \<longrightarrow>
            (\<exists>rest. effects w' =
               effects w @ CodecLoad inputPath #
                 (if 0 < M \<and> M < L then [CodecResize (float64_div M (float64_of_nat L))] else [])
                 @ rest \<and>
               (\<forall>s. CodecResize s \<notin> set rest)) \<and>
            (r = None \<longrightarrow>
               (\<exists>scaled bytes t'.
                  (if 0 < M \<and> M < L
                   then vips_resize env img (float64_div M (float64_of_nat L)) KernelLanczos3 =
                          Inr scaled
                   else scaled = img) \<and>
                  vips_encode env scaled (getExportParams env ic format) = Inr bytes \<and>
                  files w' outPath = Regular bytes t')))"
proof -
  have eq: "convertImage_scale ic img = (if M < L then float64_div M (float64_of_nat L) else 1)"
    unfolding M_def L_def by (rule convertImage_scale_eq)
  have bounds: "0 < convertImage_scale ic img \<and> convertImage_scale ic img < 1" if "0 < M \<and> M < L"
    using that convertImage_scale_bounds [of ic img] unfolding M_def L_def by blast
  have le: "convertImage_scale ic img \<le> 1"
  proof (cases "M < L")
    case True
    show ?thesis
    proof (cases "0 < M")
      case True
      with \<open>M < L\<close> bounds show ?thesis by simp
    next
      case False
      then show ?thesis using eq \<open>M < L\<close> by (simp add: float64_div_def)
    qed
  next
    case False
    then show ?thesis using eq by simp
  qed
  have exact: "float64_of_nat L = L" if "L < 2 ^ 53"
    using that by (rule float64_of_nat_exact)
  have pos: "0 < MaxDimension (options ic) \<longleftrightarrow> 0 < M"
    unfolding M_def by (simp add: word_greater_zero_iff unat_gt_0)
  have cond: "(0 < MaxDimension (options ic) \<and> convertImage_scale ic img < 1) \<longleftrightarrow> (0 < M \<and> M < L)"
    using bounds eq pos by auto
  have eff: "\<exists>rest. effects w' =
               effects w @ CodecLoad inputPath #
                 (if 0 < M \<and> M < L then [CodecResize (float64_div M (float64_of_nat L))] else [])
                 @ rest \<and>
               (\<forall>s. CodecResize s \<notin> set rest)"
    if h: "files w inputPath = Regular d t \<and> vips_decode env d = Inr img \<and>
          convertImage env ic w inputPath outPath format = (r, w')"
  proof -
    from h have a: "files w inputPath = Regular d t" and b: "vips_decode env d = Inr img"
      and c: "convertImage env ic w inputPath outPath format = (r, w')" by simp_all
    note E = convertImage_effects [OF a b c, unfolded cond]
    show ?thesis
    proof (cases "0 < M \<and> M < L")
      case True
      then have s: "convertImage_scale ic img = float64_div M (float64_of_nat L)"
        using eq by simp
      show ?thesis using E unfolding if_P [OF True] s .
    next
      case False
      show ?thesis using E unfolding if_not_P [OF False] .
    qed
  qed
  have out: "\<exists>scaled bytes t'.
                  (if 0 < M \<and> M < L
                   then vips_resize env img (float64_div M (float64_of_nat L)) KernelLanczos3 =
                          Inr scaled
                   else scaled = img) \<and>
                  vips_encode env scaled (getExportParams env ic format) = Inr bytes \<and>
                  files w' outPath = Regular bytes t'"
    if h: "files w inputPath = Regular d t \<and> vips_decode env d = Inr img \<and>
          convertImage env ic w inputPath outPath format = (r, w')" and none: "r = None"
  proof -
    from h none have a: "files w inputPath = Regular d t" and b: "vips_decode env d = Inr img"
      and c: "convertImage env ic w inputPath outPath format = (None, w')" by simp_all
    note W = convertImage_written [OF a b c, unfolded cond]
    show ?thesis
    proof (cases "0 < M \<and> M < L")
      case True
      then have s: "convertImage_scale ic img = float64_div M (float64_of_nat L)"
        using eq by simp
      show ?thesis using W unfolding if_P [OF True] s .
    next
      case False
      show ?thesis using W unfolding if_not_P [OF False] .
    qed
  qed
  show ?thesis using eq le bounds exact eff out by blast
qed


theorem convertImage_downscale_witness:
  "0 < unat (MaxDimension (options (NewImageConverter example_options))) \<and>
   unat (MaxDimension (options (NewImageConverter example_options))) <
     max (Width \<lparr>Width = 2000, Height = 1000, Pixels = ''pixels''\<rparr>)
         (Height \<lparr>Width = 2000, Height = 1000, Pixels = ''pixels''\<rparr>) \<and>
   convertImage_scale (NewImageConverter example_options)
     \<lparr>Width = 2000, Height = 1000, Pixels = ''pixels''\<rparr> = 1 / 4 \<and>
   files example_world ''d/a.png'' = Regular ''pixels'' 5 \<and>
   vips_decode example_env ''pixels'' = Inr \<lparr>Width = 2000, Height = 1000, Pixels = ''pixels''\<rparr> \<and>
   (\<exists>rest.
      effects (snd (convertImage example_env (NewImageConverter example_options) example_world
                      ''d/a.png'' ''d/a.webp'' ''webp'')) =
        effects example_world @ CodecLoad ''d/a.png'' # CodecResize (1 / 4) # rest \<and>
      (\<forall>s. CodecResize s \<notin> set rest)) \<and>
   fst (convertImage example_env (NewImageConverter example_options) example_world
          ''d/a.png'' ''d/a.webp'' ''webp'') = None \<and>
   (\<exists>bytes t'.
      vips_resize example_env \<lparr>Width = 2000, Height = 1000, Pixels = ''pixels''\<rparr> (1 / 4)
        KernelLanczos3 = Inr \<lparr>Width = 500, Height = 250, Pixels = ''pixels''\<rparr> \<and>
      vips_encode example_env \<lparr>Width = 500, Height = 250, Pixels = ''pixels''\<rparr>
        (getExportParams example_env (NewImageConverter example_options) ''webp'') = Inr bytes \<and>
      files (snd (convertImage example_env (NewImageConverter example_options) example_world
                    ''d/a.png'' ''d/a.webp'' ''webp'')) ''d/a.webp'' = Regular bytes t')"
proof -
  let ?ic = "NewImageConverter example_options"
  let ?img = "\<lparr>Width = 2000, Height = 1000, Pixels = ''pixels''\<rparr>"
  let ?small = "\<lparr>Width = 500, Height = 250, Pixels = ''pixels''\<rparr>"
  let ?run = "convertImage example_env ?ic example_world ''d/a.png'' ''d/a.webp'' ''webp''"
  note T = convertImage_downscale [of ?ic ?img example_world "''d/a.png''" "''pixels''" 5
      example_env "''d/a.webp''" "''webp''" "fst ?run" "snd ?run"]
  have M: "unat (MaxDimension (options ?ic)) = 500"
    by (simp add: NewImageConverter_def example_options_def)
  have L: "max (Width ?img) (Height ?img) = 2000" by simp
  have q: "float64_div 500 (float64_of_nat 2000) = 1 / 4"
    by (simp add: float64_div_def float64_of_nat_def round_half_even_def compute_floorlog)
  have a: "files example_world ''d/a.png'' = Regular ''pixels'' 5"
    by (simp add: example_world_def)
  have b: "vips_decode example_env ''pixels'' = Inr ?img" by (simp add: example_env_def)
  have sc: "convertImage_scale ?ic ?img = 1 / 4"
    using T [THEN conjunct1] unfolding M L by (simp add: q)
  have ok: "fst ?run = None"
    by (simp add: convertImage_def vips_NewImageFromFile_def vips_Resize_def vips_Export_def
        os_WriteFile_def time_Now_def example_world_def example_env_def Let_def
        split: if_splits)
  have rs: "vips_resize example_env ?img (1 / 4) KernelLanczos3 = Inr ?small"
    by (simp add: example_env_def)
  note T5 = T [THEN conjunct2, THEN conjunct2, THEN conjunct2, THEN conjunct2, THEN mp]
  have both: "(\<exists>rest. effects (snd ?run) =
      effects example_world @ CodecLoad ''d/a.png'' #
        (if 0 < unat (MaxDimension (options ?ic)) \<and>
            unat (MaxDimension (options ?ic)) < max (Width ?img) (Height ?img)
         then [CodecResize (float64_div (unat (MaxDimension (options ?ic)))
                 (float64_of_nat (max (Width ?img) (Height ?img))))] else [])
        @ rest \<and>
      (\<forall>s. CodecResize s \<notin> set rest)) \<and>
     (fst ?run = None \<longrightarrow>
        (\<exists>scaled bytes t'.
           (if 0 < unat (MaxDimension (options ?ic)) \<and>
               unat (MaxDimension (options ?ic)) < max (Width ?img) (Height ?img)
            then vips_resize example_env ?img
                   (float64_div (unat (MaxDimension (options ?ic)))
                      (float64_of_nat (max (Width ?img) (Height ?img)))) KernelLanczos3 = Inr scaled
            else scaled = ?img) \<and>
           vips_encode example_env scaled (getExportParams example_env ?ic ''webp'') = Inr bytes \<and>
           files (snd ?run) ''d/a.webp'' = Regular bytes t'))"
    by (rule T5) (simp add: a b)
  from both have e: "\<exists>rest. effects (snd ?run) =
      effects example_world @ CodecLoad ''d/a.png'' # CodecResize (1 / 4) # rest \<and>
      (\<forall>s. CodecResize s \<notin> set rest)"
    unfolding M L by (simp add: q)
  from both [THEN conjunct2, THEN mp, OF ok]
  have "\<exists>scaled bytes t'.
           vips_resize example_env ?img (1 / 4) KernelLanczos3 = Inr scaled \<and>
           vips_encode example_env scaled (getExportParams example_env ?ic ''webp'') = Inr bytes \<and>
           files (snd ?run) ''d/a.webp'' = Regular bytes t'"
    unfolding M L by (simp add: q)
  then have o: "\<exists>bytes t'.
      vips_resize example_env ?img (1 / 4) KernelLanczos3 = Inr ?small \<and>
      vips_encode example_env ?small (getExportParams example_env ?ic ''webp'') = Inr bytes \<and>
      files (snd ?run) ''d/a.webp'' = Regular bytes t'"
    unfolding rs by auto
  show ?thesis using sc a b e ok o by (simp add: M)
qed

section \<open>More on the paths through \<open>ConvertWithOutputPath\<close>\<close>

lemma Convert_Inr_elim:
  assumes "Convert env ic w path format = (Inr r, ic', w')"
  obtains r0 w1 where
    "ConvertWithOutputPath_body env ic (w\<lparr>clock_reads := Suc (clock_reads w)\<rparr>) path format [] =
       (Inr r0, ic', w1)"
    and "r = r0\<lparr>Duration := time_Sub (clock_at env (clock_reads w1)) (clock_at env (clock_reads w))\<rparr>"
    and "w' = w1\<lparr>clock_reads := Suc (clock_reads w1)\<rparr>"
proof -
  let ?w0 = "w\<lparr>clock_reads := Suc (clock_reads w)\<rparr>"
  obtain x icx w1 where b: "ConvertWithOutputPath_body env ic ?w0 path format [] = (x, icx, w1)"
    using prod_cases3 by blast
  show ?thesis
  proof (cases x)
    case (Inl p)
    then show ?thesis
      using assms b by (simp add: Convert_def ConvertWithOutputPath_def time_Now_eq time_Since_def)
  next
    case (Inr r0)
    then have "ConvertWithOutputPath_body env ic ?w0 path format [] = (Inr r0, icx, w1)"
      using b by simp
    from Convert_wrap [OF this] assms this that show ?thesis by simp
  qed
qed

lemma getConfigHash_settings:
  "Quality (options a) = Quality (options b) \<Longrightarrow>
   MaxDimension (options a) = MaxDimension (options b) \<Longrightarrow> getConfigHash a = getConfigHash b"
  by (simp add: getConfigHash_def)

lemma isCacheValid_iff:
  "isCacheValid ic w e t p \<longleftrightarrow>
     \<not> lastModified e < t \<and> (\<exists>fi. os_Stat w p = Inr fi) \<and> configHash e = getConfigHash ic"
  by (auto simp: isCacheValid_def split: sum.splits)

lemma convert_uncached_dry:
  assumes "DryRun (options ic0)"
  shows "convert_uncached env w path fmt key mt result0 ic0 =
           (case refresh_from_disk env w key result0 ic0 of
              (result, ic, w1) \<Rightarrow> (Inr result, ic, w1))"
proof -
  obtain res1 ic1 w1 where s1: "refresh_from_disk env w key result0 ic0 = (res1, ic1, w1)"
    using prod_cases3 by blast
  have "DryRun (options ic1)" using assms refresh_from_disk_frame(1) [OF s1] by simp
  then show ?thesis unfolding convert_uncached_def s1 by simp
qed



lemma convertImage_None:
  assumes run: "convertImage env ic w i p f = (None, w')"
  shows "\<exists>d t src img bytes t'.
           files w i = Regular d t \<and> vips_decode env d = Inr src \<and>
           (if 0 < MaxDimension (options ic) \<and> convertImage_scale ic src < 1
            then vips_resize env src (convertImage_scale ic src) KernelLanczos3 = Inr img
            else img = src) \<and>
           vips_encode env img (getExportParams env ic f) = Inr bytes \<and>
           p \<noteq> [] \<and> files w' p = Regular bytes t' \<and>
           CodecLoad i \<in> set (effects w') \<and>
           CodecExport (getExportParams env ic f) \<in> set (effects w') \<and>
           FsWrite p bytes \<in> set (effects w')"
proof -
  obtain d t src where f: "files w i = Regular d t" and dec: "vips_decode env d = Inr src"
    using run unfolding convertImage_def vips_NewImageFromFile_def
    by (auto simp: Let_def split: node.splits sum.splits)
  from convertImage_written [OF f dec run] obtain img bytes t' where
    sc: "if 0 < MaxDimension (options ic) \<and> convertImage_scale ic src < 1
         then vips_resize env src (convertImage_scale ic src) KernelLanczos3 = Inr img
         else img = src"
    and enc: "vips_encode env img (getExportParams env ic f) = Inr bytes"
    and out: "files w' p = Regular bytes t'" by blast
  from convertImage_success [OF run] out have ne: "p \<noteq> []"
    and e1: "CodecExport (getExportParams env ic f) \<in> set (effects w')"
    and e2: "FsWrite p bytes \<in> set (effects w')" by auto
  from convertImage_effects [OF f dec run] have e0: "CodecLoad i \<in> set (effects w')" by auto
  show ?thesis using f dec sc enc ne out e0 e1 e2 by blast
qed

lemma convert_uncached_encoded:
  assumes run: "convert_uncached env w path fmt key mt result0 ic0 = (Inr r, ic', w')"
    and ok: "Error r = None"
    and wet: "\<not> DryRun (options ic0)"
  shows "\<exists>img bytes. vips_encode env img (getExportParams env ic0 fmt) = Inr bytes \<and>
            NewSize r = of_nat (length bytes) \<and>
            CodecLoad path \<in> set (effects w') \<and>
            CodecExport (getExportParams env ic0 fmt) \<in> set (effects w') \<and>
            FsWrite (NewPath result0) bytes \<in> set (effects w') \<and>
            (\<not> Backup (options ic0) \<longrightarrow>
               (\<exists>d t src. files w path = Regular d t \<and> vips_decode env d = Inr src \<and>
                  (if 0 < MaxDimension (options ic0) \<and> convertImage_scale ic0 src < 1
                   then vips_resize env src (convertImage_scale ic0 src) KernelLanczos3 = Inr img
                   else img = src)))"
proof -
  obtain res1 ic1 w1 where s1: "refresh_from_disk env w key result0 ic0 = (res1, ic1, w1)"
    using prod_cases3 by blast
  note f1 = refresh_from_disk_frame [OF s1]
  have wet1: "\<not> DryRun (options ic1)" using wet f1(1) by simp
  obtain rb ic2 w2 where s2:
    "(if Backup (options ic1) then createBackup env ic1 w1 path else (Inr None, ic1, w1)) = (rb, ic2, w2)"
    using prod_cases3 by blast
  have o2: "options ic2 = options ic0" using backup_step_ic [OF s2] f1(1) by simp
  have same: "files w2 = files w" if "\<not> Backup (options ic0)"
    using that s2 f1(1,7) by simp
  have run2: "(case rb of
       Inl p \<Rightarrow> (Inl p, ic2, w2)
     | Inr (Some err) \<Rightarrow> (Inr (res1\<lparr>Error := Some (WrapError ''backup failed: '' err [])\<rparr>), ic2, w2)
     | Inr None \<Rightarrow>
         (case convertImage env ic2 w2 path (NewPath res1) fmt of
            (Some err, w3) \<Rightarrow> (Inr (res1\<lparr>Error := Some err\<rparr>), ic2, w3)
          | (None, w3) \<Rightarrow>
              (case store_converted w3 key mt res1 ic2 of
                 (res3, ic3) \<Rightarrow> remove_original w3 path res3 ic3))) = (Inr r, ic', w')"
    using run wet1 unfolding convert_uncached_def s1
    by (simp add: s2 split: sum.splits option.splits)
  from run2 ok obtain w3 where rb: "rb = Inr None"
    and ci: "convertImage env ic2 w2 path (NewPath res1) fmt = (None, w3)"
    by (auto split: sum.splits option.splits prod.splits)
  have gp: "getExportParams env ic2 fmt = getExportParams env ic0 fmt"
    using o2 by (rule getExportParams_cong)
  have gs: "convertImage_scale ic2 = convertImage_scale ic0"
    using o2 by (auto simp: convertImage_scale_def)
  from convertImage_None [OF ci] obtain d t src img bytes t' where
    f: "files w2 path = Regular d t" and dec: "vips_decode env d = Inr src"
    and sc: "if 0 < MaxDimension (options ic0) \<and> convertImage_scale ic0 src < 1
             then vips_resize env src (convertImage_scale ic0 src) KernelLanczos3 = Inr img
             else img = src"
    and enc: "vips_encode env img (getExportParams env ic0 fmt) = Inr bytes"
    and np: "NewPath res1 \<noteq> []" and f3: "files w3 (NewPath res1) = Regular bytes t'"
    and e0: "CodecLoad path \<in> set (effects w3)"
    and e1: "CodecExport (getExportParams env ic0 fmt) \<in> set (effects w3)"
    and e2: "FsWrite (NewPath res1) bytes \<in> set (effects w3)"
    unfolding gp gs o2 by blast
  have st3: "os_Stat w3 (NewPath res1) = Inr \<lparr>Size = of_nat (length bytes), ModTime = t', IsDir = False\<rparr>"
    using np f3 by (rule os_Stat_Regular)
  define res3 where "res3 = res1\<lparr>NewSize := of_nat (length bytes)\<rparr>"
  define ic3 where "ic3 = ic2\<lparr>cache := (cache ic2)(key \<mapsto>
      \<lparr>outputPath = NewPath res1, outputSize = of_nat (length bytes),
       lastModified = mt, configHash = getConfigHash ic2\<rparr>)\<rparr>"
  have s3: "store_converted w3 key mt res1 ic2 = (res3, ic3)"
    by (simp add: store_converted_def st3 res3_def ic3_def)
  have s4: "remove_original w3 path res3 ic3 = (Inr r, ic', w')"
    using run2 by (simp add: rb ci s3)
  note f4 = remove_original_frame [OF s4 ok]
  have size: "NewSize r = of_nat (length bytes)" using f4(1) by (simp add: res3_def)
  have a0: "CodecLoad path \<in> set (effects w')" using e0 f4(3) by auto
  have a1: "CodecExport (getExportParams env ic0 fmt) \<in> set (effects w')" using e1 f4(3) by auto
  have a2: "FsWrite (NewPath result0) bytes \<in> set (effects w')" using e2 f4(3) f1(3) by auto
  have src: "\<exists>d t src. files w path = Regular d t \<and> vips_decode env d = Inr src \<and>
                  (if 0 < MaxDimension (options ic0) \<and> convertImage_scale ic0 src < 1
                   then vips_resize env src (convertImage_scale ic0 src) KernelLanczos3 = Inr img
                   else img = src)" if "\<not> Backup (options ic0)"
    using same [OF that] f dec sc by auto
  show ?thesis using enc size a0 a1 a2 src by blast
qed

lemma body_uncached:
  fixes env ic w path format outPath
  defines "fmt \<equiv> strings_ToLower (unicode_lower env) format"
  defines "newPath \<equiv> (if outPath \<noteq> [] then outPath
                        else strings_TrimSuffix path (filepath_Ext path) @ ''.'' @ fmt)"
  defines "key \<equiv> getCacheKey env ic path fmt"
  assumes stat: "os_Stat w path = Inr st"
    and nal: "\<not> isAlreadyInFormat (getFileExtension env path) fmt"
    and nohit: "\<forall>e. cache ic key = Some e \<longrightarrow> \<not> isCacheValid ic w e (ModTime st) newPath"
  shows "ConvertWithOutputPath_body env ic w path format outPath =
           convert_uncached env w path fmt key (ModTime st)
             \<lparr>OriginalPath = path, NewPath = newPath, OriginalSize = Size st,
              NewSize = 0, Duration = 0, Error = None\<rparr>
             (ic\<lparr>cache := (cache ic)(key := None)\<rparr>)"
proof (cases "cache ic key")
  case None
  then have same: "ic\<lparr>cache := (cache ic)(key := None)\<rparr> = ic" by (simp add: fun_upd_idem)
  show ?thesis
    unfolding same ConvertWithOutputPath_body_stages
    using stat nal None by (simp add: Let_def fmt_def newPath_def key_def)
next
  case (Some e)
  then have "\<not> isCacheValid ic w e (ModTime st) newPath" using nohit by simp
  then show ?thesis
    unfolding ConvertWithOutputPath_body_stages
    using stat nal Some by (cases "outPath = []") (simp_all add: Let_def fmt_def newPath_def key_def)
qed


lemma body_converted:
  fixes env ic w path format outPath
  defines "fmt \<equiv> strings_ToLower (unicode_lower env) format"
  defines "newPath \<equiv> (if outPath \<noteq> [] then outPath
                        else strings_TrimSuffix path (filepath_Ext path) @ ''.'' @ fmt)"
  defines "key \<equiv> getCacheKey env ic path fmt"
  assumes run: "ConvertWithOutputPath_body env ic w path format outPath = (Inr r, ic', w')"
    and ok: "Error r = None"
    and stat: "os_Stat w path = Inr st"
    and nal: "\<not> isAlreadyInFormat (getFileExtension env path) fmt"
    and wet: "\<not> DryRun (options ic)"
    and nohit: "\<forall>e. cache ic key = Some e \<longrightarrow> \<not> isCacheValid ic w e (ModTime st) newPath"
  shows "NewPath r = newPath \<and> OriginalPath r = path \<and> options ic' = options ic \<and>
         cache ic' key = Some \<lparr>outputPath = newPath, outputSize = NewSize r,
                               lastModified = ModTime st, configHash = getConfigHash ic\<rparr> \<and>
         (\<exists>img bytes. vips_encode env img (getExportParams env ic fmt) = Inr bytes \<and>
            NewSize r = of_nat (length bytes) \<and>
            CodecLoad path \<in> set (effects w') \<and>
            CodecExport (getExportParams env ic fmt) \<in> set (effects w') \<and>
            FsWrite newPath bytes \<in> set (effects w') \<and>
            (\<not> Backup (options ic) \<longrightarrow>
               (\<exists>d t src. files w path = Regular d t \<and> vips_decode env d = Inr src \<and>
                  (if 0 < MaxDimension (options ic) \<and> convertImage_scale ic src < 1
                   then vips_resize env src (convertImage_scale ic src) KernelLanczos3 = Inr img
                   else img = src))))"
proof -
  let ?ic0 = "ic\<lparr>cache := (cache ic)(key := None)\<rparr>"
  let ?res0 = "\<lparr>OriginalPath = path, NewPath = newPath, OriginalSize = Size st,
              NewSize = 0, Duration = 0, Error = None\<rparr>"
  have o0: "options ?ic0 = options ic" by simp
  have sc0: "convertImage_scale ?ic0 = convertImage_scale ic"
    by (auto simp: convertImage_scale_def)
  have wet0: "\<not> DryRun (options ?ic0)" using wet by simp
  have cu: "convert_uncached env w path fmt key (ModTime st) ?res0 ?ic0 = (Inr r, ic', w')"
    using body_uncached [OF stat nal [unfolded fmt_def] nohit [unfolded key_def newPath_def fmt_def]]
      run by (simp add: fmt_def key_def newPath_def)
  from convert_uncached_converted [OF cu ok wet0]
  have a: "NewPath r = newPath \<and> OriginalPath r = path \<and> options ic' = options ic \<and>
         cache ic' key = Some \<lparr>outputPath = newPath, outputSize = NewSize r,
                               lastModified = ModTime st, configHash = getConfigHash ic\<rparr>"
    by (simp add: getConfigHash_cong [OF o0])
  from convert_uncached_encoded [OF cu ok wet0]
  have b: "\<exists>img bytes. vips_encode env img (getExportParams env ic fmt) = Inr bytes \<and>
            NewSize r = of_nat (length bytes) \<and>
            CodecLoad path \<in> set (effects w') \<and>
            CodecExport (getExportParams env ic fmt) \<in> set (effects w') \<and>
            FsWrite newPath bytes \<in> set (effects w') \<and>
            (\<not> Backup (options ic) \<longrightarrow>
               (\<exists>d t src. files w path = Regular d t \<and> vips_decode env d = Inr src \<and>
                  (if 0 < MaxDimension (options ic) \<and> convertImage_scale ic src < 1
                   then vips_resize env src (convertImage_scale ic src) KernelLanczos3 = Inr img
                   else img = src)))"
    unfolding getExportParams_cong [OF o0] sc0 by simp
  from a b show ?thesis by blast
qed

lemma body_success_entry:
  fixes env ic w path format outPath
  defines "fmt \<equiv> strings_ToLower (unicode_lower env) format"
  defines "newPath \<equiv> (if outPath \<noteq> [] then outPath
                        else strings_TrimSuffix path (filepath_Ext path) @ ''.'' @ fmt)"
  defines "key \<equiv> getCacheKey env ic path fmt"
  assumes run: "ConvertWithOutputPath_body env ic w path format outPath = (Inr r, ic', w')"
    and ok: "Error r = None"
    and stat: "os_Stat w path = Inr st"
    and wet: "\<not> DryRun (options ic)"
  shows "\<not> isAlreadyInFormat (getFileExtension env path) fmt \<and>
         NewPath r = newPath \<and> OriginalPath r = path \<and>
         (\<exists>e. cache ic' key = Some e \<and> outputSize e = NewSize r \<and>
              \<not> lastModified e < ModTime st \<and> configHash e = getConfigHash ic)"
proof -
  have nal: "\<not> isAlreadyInFormat (getFileExtension env path) fmt"
  proof
    assume "isAlreadyInFormat (getFileExtension env path) fmt"
    from body_already [OF stat this [unfolded fmt_def], of ic outPath] run ok
    show False by auto
  qed
  show ?thesis
  proof (cases "\<exists>c. cache ic key = Some c \<and> isCacheValid ic w c (ModTime st) newPath")
    case True
    then obtain c where c: "cache ic key = Some c" "isCacheValid ic w c (ModTime st) newPath"
      by blast
    from body_cache_hit [OF stat nal [unfolded fmt_def] c(1) [unfolded key_def fmt_def]
        c(2) [unfolded newPath_def fmt_def]] run
    have "r = \<lparr>OriginalPath = path, NewPath = newPath, OriginalSize = Size st,
               NewSize = outputSize c, Duration = 0, Error = None\<rparr>" and "ic' = ic"
      by (simp_all add: newPath_def fmt_def)
    then show ?thesis using nal c by (auto simp: isCacheValid_iff)
  next
    case False
    then have nohit: "\<forall>c. cache ic key = Some c \<longrightarrow> \<not> isCacheValid ic w c (ModTime st) newPath"
      by blast
    from body_converted [OF run ok stat nal [unfolded fmt_def] wet
        nohit [unfolded key_def newPath_def fmt_def]]
    show ?thesis using nal by (simp add: fmt_def key_def newPath_def)
  qed
qed

lemma getCacheKey_settings:
  "Quality (options a) = Quality (options b) \<Longrightarrow>
   MaxDimension (options a) = MaxDimension (options b) \<Longrightarrow>
   getCacheKey env a p f = getCacheKey env b p f"
  by (simp add: getCacheKey_def getConfigHash_def)


subsection \<open>runs of the concrete instance\<close>

lemma example_scale:
  "MaxDimension (options ic) = 500 \<Longrightarrow>
   convertImage_scale ic \<lparr>Width = 2000, Height = 1000, Pixels = d\<rparr> = 1 / 4"
  by (simp add: convertImage_scale_def float64_div_def float64_of_nat_def round_half_even_def
      compute_floorlog)

lemmas example_run =
  example_env_def example_options_def example_world_def NewImageConverter_def
  newBufferPool_def Convert_def ConvertWithOutputPath_def ConvertWithOutputPath_body_def
  time_Now_def time_Since_def time_Sub_def os_Stat_def getFileExtension_def filepath_Ext_def
  strings_ToLower_def ascii_lower_def isAlreadyInFormat_def strings_TrimSuffix_def
  strings_HasSuffix_def getCacheKey_def getConfigHash_def strconv_FormatUint.simps Let_def
  isCacheValid_def convertImage_def vips_NewImageFromFile_def vips_Resize_def vips_Export_def
  os_WriteFile_def getExportParams_def example_scale



section \<open>The second conversion\<close>

text \<open>
  C5. Let a call of \<open>Convert\<close> that is not a dry run return a result without error,
  and let \<open>Convert\<close> be called again for the same path and format, on a converter
  that holds the cache the first call left and has the same quality and maximum
  dimension, in a world where the source is present with the modification time it
  had at the first call and the output path of the first result is on disk. Then the
  second call returns the error-free result with the \<^verbatim>\<open>NewSize\<close> of the first call,
  and leaves the converter as it is and the world as it is but for its two readings
  of the clock: no codec call and no write.
\<close>

theorem Convert_again_cache_hit:
  assumes first: "Convert env ic w path format = (Inr ra, ica, wa)"
    and ok: "Error ra = None"
    and wet: "\<not> DryRun (options ic)"
    and src1: "os_Stat w path = Inr sta"
    and src2: "os_Stat wb path = Inr stb"
    and mtime: "ModTime stb = ModTime sta"
    and out2: "os_Stat wb (NewPath ra) = Inr ns"
    and cache2: "cache icb = cache ica"
    and quality: "Quality (options icb) = Quality (options ic)"
    and maxdim: "MaxDimension (options icb) = MaxDimension (options ic)"
  shows "Convert env icb wb path format =
           (Inr \<lparr>OriginalPath = path, NewPath = NewPath ra, OriginalSize = Size stb,
                 NewSize = NewSize ra,
                 Duration = time_Sub (clock_at env (Suc (clock_reads wb)))
                                     (clock_at env (clock_reads wb)),
                 Error = None\<rparr>,
            icb, wb\<lparr>clock_reads := Suc (Suc (clock_reads wb))\<rparr>)"
proof -
  define fmt where "fmt = strings_ToLower (unicode_lower env) format"
  define newPath where "newPath = strings_TrimSuffix path (filepath_Ext path) @ ''.'' @ fmt"
  let ?w0 = "w\<lparr>clock_reads := Suc (clock_reads w)\<rparr>"
  let ?w20 = "wb\<lparr>clock_reads := Suc (clock_reads wb)\<rparr>"
  from Convert_Inr_elim [OF first] obtain r0 wm where
    b: "ConvertWithOutputPath_body env ic ?w0 path format [] = (Inr r0, ica, wm)"
    and ra: "ra = r0\<lparr>Duration := time_Sub (clock_at env (clock_reads wm)) (clock_at env (clock_reads w))\<rparr>"
    by blast
  have ok0: "Error r0 = None" using ok ra by simp
  have st: "os_Stat ?w0 path = Inr sta" using src1 by simp
  from body_success_entry [OF b ok0 st] wet
  have nal: "\<not> isAlreadyInFormat (getFileExtension env path) fmt"
    and np: "NewPath r0 = newPath"
    and ex: "\<exists>e. cache ica (getCacheKey env ic path fmt) = Some e \<and> outputSize e = NewSize r0 \<and>
              \<not> lastModified e < ModTime sta \<and> configHash e = getConfigHash ic"
    by (simp_all add: fmt_def newPath_def)
  from ex obtain e where e: "cache ica (getCacheKey env ic path fmt) = Some e"
    and size: "outputSize e = NewSize r0"
    and fresh: "\<not> lastModified e < ModTime sta"
    and hash: "configHash e = getConfigHash ic" by blast
  have key2: "cache icb (getCacheKey env icb path fmt) = Some e"
    using e cache2 getCacheKey_settings [OF quality maxdim] by simp
  have hash2: "configHash e = getConfigHash icb"
    using hash getConfigHash_settings [OF quality maxdim] by simp
  have np1: "NewPath ra = newPath" using np ra by simp
  have valid: "isCacheValid icb ?w20 e (ModTime stb) newPath"
    unfolding isCacheValid_iff using fresh mtime hash2 out2 np1 by simp
  have stb: "os_Stat ?w20 path = Inr stb" using src2 by simp
  have "ConvertWithOutputPath_body env icb ?w20 path format [] =
          (Inr \<lparr>OriginalPath = path, NewPath = newPath, OriginalSize = Size stb,
                NewSize = outputSize e, Duration = 0, Error = None\<rparr>, icb, ?w20)"
    using body_cache_hit [OF stb nal [unfolded fmt_def] key2 [unfolded fmt_def], of "[]"] valid
    by (simp add: newPath_def fmt_def)
  from Convert_wrap [OF this] show ?thesis using size ra np1 by simp
qed

theorem Convert_again_cache_hit_witness:
  "fst (Convert example_env (NewImageConverter example_options) example_world ''d/a.png'' ''jpg'') =
     Inr \<lparr>OriginalPath = ''d/a.png'', NewPath = ''d/a.jpg'', OriginalSize = 6, NewSize = 10,
          Duration = 3, Error = None\<rparr> \<and>
   \<not> DryRun (options (NewImageConverter example_options)) \<and>
   os_Stat example_world ''d/a.png'' = Inr \<lparr>Size = 6, ModTime = 5, IsDir = False\<rparr> \<and>
   os_Stat (snd (snd (Convert example_env (NewImageConverter example_options) example_world
                        ''d/a.png'' ''jpg''))) ''d/a.png'' =
     Inr \<lparr>Size = 6, ModTime = 5, IsDir = False\<rparr> \<and>
   os_Stat (snd (snd (Convert example_env (NewImageConverter example_options) example_world
                        ''d/a.png'' ''jpg''))) ''d/a.jpg'' =
     Inr \<lparr>Size = 10, ModTime = 1002, IsDir = False\<rparr> \<and>
   Convert example_env
     (fst (snd (Convert example_env (NewImageConverter example_options) example_world
                  ''d/a.png'' ''jpg'')))
     (snd (snd (Convert example_env (NewImageConverter example_options) example_world
                  ''d/a.png'' ''jpg'')))
     ''d/a.png'' ''jpg'' =
     (Inr \<lparr>OriginalPath = ''d/a.png'', NewPath = ''d/a.jpg'', OriginalSize = 6, NewSize = 10,
           Duration = 1, Error = None\<rparr>,
      fst (snd (Convert example_env (NewImageConverter example_options) example_world
                  ''d/a.png'' ''jpg'')),
      snd (snd (Convert example_env (NewImageConverter example_options) example_world
                  ''d/a.png'' ''jpg''))\<lparr>clock_reads := 6\<rparr>)"
proof -
  let ?ic = "NewImageConverter example_options"
  let ?first = "Convert example_env ?ic example_world ''d/a.png'' ''jpg''"
  let ?r1 = "\<lparr>OriginalPath = ''d/a.png'', NewPath = ''d/a.jpg'', OriginalSize = 6, NewSize = 10,
          Duration = 3, Error = None\<rparr>"
  have r: "fst ?first = Inr ?r1" by (simp add: example_run)
  then have first: "?first = (Inr ?r1, fst (snd ?first), snd (snd ?first))"
    by (metis prod.collapse)
  have wet: "\<not> DryRun (options ?ic)" by (simp add: NewImageConverter_def example_options_def)
  have src1: "os_Stat example_world ''d/a.png'' = Inr \<lparr>Size = 6, ModTime = 5, IsDir = False\<rparr>"
    by (simp add: os_Stat_def example_world_def)
  have src2: "os_Stat (snd (snd ?first)) ''d/a.png'' = Inr \<lparr>Size = 6, ModTime = 5, IsDir = False\<rparr>"
    by (simp add: example_run)
  have out2: "os_Stat (snd (snd ?first)) (NewPath ?r1) = Inr \<lparr>Size = 10, ModTime = 1002, IsDir = False\<rparr>"
    by (simp add: example_run)
  have clock: "clock_reads (snd (snd ?first)) = 4" by (simp add: example_run)
  have ok: "Error ?r1 = None" by simp
  have mt: "ModTime \<lparr>Size = 6, ModTime = 5, IsDir = False\<rparr> =
            ModTime \<lparr>Size = 6, ModTime = (5::int), IsDir = False\<rparr>" by simp
  have d: "time_Sub (clock_at example_env (Suc 4)) (clock_at example_env 4) = 1"
    by (simp add: time_Sub_def example_env_def)
  have q: "Quality (options (fst (snd ?first))) = Quality (options ?ic)"
    by (simp add: example_run)
  have m: "MaxDimension (options (fst (snd ?first))) = MaxDimension (options ?ic)"
    by (simp add: example_run)
  note T = Convert_again_cache_hit [where icb = "fst (snd ?first)" and wb = "snd (snd ?first)",
        OF first ok wet src1 src2 mt out2 refl q m]
  have hit: "Convert example_env (fst (snd ?first)) (snd (snd ?first)) ''d/a.png'' ''jpg'' =
     (Inr \<lparr>OriginalPath = ''d/a.png'', NewPath = ''d/a.jpg'', OriginalSize = 6, NewSize = 10,
           Duration = 1, Error = None\<rparr>,
      fst (snd ?first), snd (snd ?first)\<lparr>clock_reads := 6\<rparr>)"
    unfolding T clock d by simp
  show ?thesis using r wet src1 src2 out2 hit by simp
qed

text \<open>
  C5 as stated fails after a dry run. The source \<^verbatim>\<open>d/a.png\<close> carries the
  modification time 5000, the clock stands at 1000, and the output \<^verbatim>\<open>d/a.jpg\<close>
  (3 bytes) is on disk. The dry run succeeds and stores an entry stamped with the
  clock reading 1001 and the size 3. At the second call the source is unchanged and
  the output is still on disk, now with 6 bytes: the entry is older than the source,
  so it is evicted, and the call reports the size 6 read from disk, not the 3 of the
  first call. With the world left as the first call left it the second call evicts
  and stores the entry again, stamped 1004.
\<close>

theorem Convert_again_cache_hit_counterexample:
  "DryRun (options (NewImageConverter (example_options\<lparr>DryRun := True\<rparr>))) \<and>
   os_Stat (example_world\<lparr>files := (files example_world)(''d/a.png'' := Regular ''pixels'' 5000)\<rparr>)
     ''d/a.png'' = Inr \<lparr>Size = 6, ModTime = 5000, IsDir = False\<rparr> \<and>
   fst (Convert example_env (NewImageConverter (example_options\<lparr>DryRun := True\<rparr>))
          (example_world\<lparr>files := (files example_world)(''d/a.png'' := Regular ''pixels'' 5000)\<rparr>)
          ''d/a.png'' ''jpg'') =
     Inr \<lparr>OriginalPath = ''d/a.png'', NewPath = ''d/a.jpg'', OriginalSize = 6, NewSize = 3,
          Duration = 2, Error = None\<rparr> \<and>
   os_Stat
     (snd (snd (Convert example_env (NewImageConverter (example_options\<lparr>DryRun := True\<rparr>))
          (example_world\<lparr>files := (files example_world)(''d/a.png'' := Regular ''pixels'' 5000)\<rparr>)
          ''d/a.png'' ''jpg''))
      \<lparr>files := (files example_world)
         (''d/a.png'' := Regular ''pixels'' 5000, ''d/a.jpg'' := Regular ''newer!'' 3)\<rparr>)
     ''d/a.png'' = Inr \<lparr>Size = 6, ModTime = 5000, IsDir = False\<rparr> \<and>
   os_Stat
     (snd (snd (Convert example_env (NewImageConverter (example_options\<lparr>DryRun := True\<rparr>))
          (example_world\<lparr>files := (files example_world)(''d/a.png'' := Regular ''pixels'' 5000)\<rparr>)
          ''d/a.png'' ''jpg''))
      \<lparr>files := (files example_world)
         (''d/a.png'' := Regular ''pixels'' 5000, ''d/a.jpg'' := Regular ''newer!'' 3)\<rparr>)
     ''d/a.jpg'' = Inr \<lparr>Size = 6, ModTime = 3, IsDir = False\<rparr> \<and>
   fst (Convert example_env
         (fst (snd (Convert example_env (NewImageConverter (example_options\<lparr>DryRun := True\<rparr>))
            (example_world\<lparr>files := (files example_world)(''d/a.png'' := Regular ''pixels'' 5000)\<rparr>)
            ''d/a.png'' ''jpg'')))
         (snd (snd (Convert example_env (NewImageConverter (example_options\<lparr>DryRun := True\<rparr>))
            (example_world\<lparr>files := (files example_world)(''d/a.png'' := Regular ''pixels'' 5000)\<rparr>)
            ''d/a.png'' ''jpg''))
          \<lparr>files := (files example_world)
             (''d/a.png'' := Regular ''pixels'' 5000, ''d/a.jpg'' := Regular ''newer!'' 3)\<rparr>)
         ''d/a.png'' ''jpg'') =
     Inr \<lparr>OriginalPath = ''d/a.png'', NewPath = ''d/a.jpg'', OriginalSize = 6, NewSize = 6,
          Duration = 2, Error = None\<rparr> \<and>
   cache (fst (snd (Convert example_env (NewImageConverter (example_options\<lparr>DryRun := True\<rparr>))
            (example_world\<lparr>files := (files example_world)(''d/a.png'' := Regular ''pixels'' 5000)\<rparr>)
            ''d/a.png'' ''jpg''))) ''d/a.pngjpg80_500'' =
     Some \<lparr>outputPath = ''d/a.jpg'', outputSize = 3, lastModified = 1001, configHash = ''80_500''\<rparr> \<and>
   cache (fst (snd (Convert example_env
         (fst (snd (Convert example_env (NewImageConverter (example_options\<lparr>DryRun := True\<rparr>))
            (example_world\<lparr>files := (files example_world)(''d/a.png'' := Regular ''pixels'' 5000)\<rparr>)
            ''d/a.png'' ''jpg'')))
         (snd (snd (Convert example_env (NewImageConverter (example_options\<lparr>DryRun := True\<rparr>))
            (example_world\<lparr>files := (files example_world)(''d/a.png'' := Regular ''pixels'' 5000)\<rparr>)
            ''d/a.png'' ''jpg'')))
         ''d/a.png'' ''jpg''))) ''d/a.pngjpg80_500'' =
     Some \<lparr>outputPath = ''d/a.jpg'', outputSize = 3, lastModified = 1004, configHash = ''80_500''\<rparr>"
  by (simp add: example_run)


section \<open>Formats that \<open>getExportParams\<close> does not know\<close>




end
